theory Spec2Isabelle
  imports Complex_Main
begin

section \<open>Holter hybrid system: windowed motion-adaptive wavelet denoising\<close>

text \<open>
  A shallow embedding of \<^verbatim>\<open>src/python/holter_hybrid_system.py\<close>.

  Conventions of the model.
  \<^item> Python floats are idealised as \<^typ>\<open>real\<close> in the processing engine: the properties
    below are about which entries are read, written and kept, and about the algebraic shape
    of the thresholds, not about rounding. A real has no overflow; where a property of the
    doubles depends on the absence of overflow, the bound \<open>DBL_MAX\<close> is a hypothesis.
  \<^item> The functions of PyWavelets (\<^verbatim>\<open>pywt.wavedec\<close>, \<^verbatim>\<open>pywt.waverec\<close>,
    \<^verbatim>\<open>pywt.threshold\<close>) are outside the repository. They are taken as a parameter, a
    record of three functions, and every theorem holds for every such record; what a theorem
    needs of the library is a visible hypothesis.
  \<^item> The functions of NumPy the code calls (\<^verbatim>\<open>mean\<close>, \<^verbatim>\<open>median\<close>, \<^verbatim>\<open>percentile\<close>,
    \<^verbatim>\<open>pad\<close>) are written out over the reals after their documentation.
  \<^item> An exception is a value \<open>Inl e\<close> of the result type \<open>error + 'a\<close>.
  \<^item> The two CSV files are the lists of the rows appended after the header.
\<close>

subsection \<open>Errors\<close>

datatype error = ValueError | IndexError

subsection \<open>HolterConfig\<close>

definition SAMPLE_RATE :: nat where
  "SAMPLE_RATE = 100"

definition WAVELET_TYPE :: string where
  "WAVELET_TYPE = ''db4''"

definition DECOMPOSITION_LEVEL :: nat where
  "DECOMPOSITION_LEVEL = 5"

definition WINDOW_SIZE :: nat where
  "WINDOW_SIZE = 500"

definition OVERLAP :: nat where
  "OVERLAP = 250"

definition ACC_THRESHOLD_PERCENTILE :: real where
  "ACC_THRESHOLD_PERCENTILE = 75"

definition THRESHOLD_MULTIPLIER_HIGH_MOTION :: real where
  "THRESHOLD_MULTIPLIER_HIGH_MOTION = 25 / 10"

definition THRESHOLD_MULTIPLIER_LOW_MOTION :: real where
  "THRESHOLD_MULTIPLIER_LOW_MOTION = 1"

subsection \<open>The range of a Python float\<close>

text \<open>A Python float is an IEEE 754 double. Its largest finite value is
  \<open>(2 - 2^-52) * 2^1023\<close>, which is \<open>2^1024 - 2^971\<close>; a product whose exact value
  does not exceed it does not overflow to \<^verbatim>\<open>inf\<close>.\<close>

definition DBL_MAX :: real where
  "DBL_MAX = 2 ^ 1024 - 2 ^ 971"

subsection \<open>The PyWavelets functions, as a parameter\<close>

text \<open>
  \<open>wavedec data wavelet level\<close> is the list of coefficient arrays
  \<open>[cA_n, cD_n, ..., cD_1]\<close>; \<open>waverec coeffs wavelet\<close> is the reconstructed signal;
  \<open>threshold data value mode\<close> is the thresholded array.
\<close>

record pywt =
  wavedec :: "real list \<Rightarrow> string \<Rightarrow> nat \<Rightarrow> real list list"
  waverec :: "real list list \<Rightarrow> string \<Rightarrow> real list"
  threshold :: "real list \<Rightarrow> real \<Rightarrow> string \<Rightarrow> real list"

subsection \<open>The NumPy functions the code calls\<close>

text \<open>\<^verbatim>\<open>np.mean\<close> of a boolean array: the fraction of its entries that are true.
  (On an empty array NumPy gives nan, and \<^verbatim>\<open>nan > 0.3\<close> is false; here the quotient
  by zero is \<open>0\<close>, and \<open>0 > 0.3\<close> is false as well.)\<close>

definition np_mean :: "bool list \<Rightarrow> real" where
  "np_mean motion_mask = real (length (filter (\<lambda>b. b) motion_mask)) / real (length motion_mask)"

text \<open>\<^verbatim>\<open>np.median\<close>: the middle entry of the sorted array, the mean of the two middle
  entries when the length is even (nan on an empty array; \<open>0\<close> here).\<close>

definition np_median :: "real list \<Rightarrow> real" where
  "np_median xs =
     (let s = sort xs; n = length s in
      if n = 0 then 0
      else if odd n then s ! (n div 2)
      else (s ! (n div 2 - 1) + s ! (n div 2)) / 2)"

text \<open>\<^verbatim>\<open>np.percentile\<close> with the default linear interpolation: the entry at the
  virtual index \<open>q / 100 * (n - 1)\<close> of the sorted array, interpolated between its two
  neighbours. An empty array has no entry to read.\<close>

definition np_percentile :: "real list \<Rightarrow> real \<Rightarrow> error + real" where
  "np_percentile xs q =
     (let s = sort xs; n = length s in
      if n = 0 then Inl IndexError
      else
        let pos = q / 100 * real (n - 1);
            lo = nat \<lfloor>pos\<rfloor>;
            hi = min (lo + 1) (n - 1);
            g = pos - real lo
        in Inr (s ! lo + (s ! hi - s ! lo) * g))"

text \<open>\<^verbatim>\<open>np.pad(a, (0, k), 'edge')\<close>: \<open>k\<close> copies of the last entry after the array;
  NumPy raises ValueError when it is asked to extend an empty array this way.\<close>

definition np_pad_edge :: "real list \<Rightarrow> nat \<Rightarrow> error + real list" where
  "np_pad_edge a k =
     (if a = [] then (if k = 0 then Inr [] else Inl ValueError)
      else Inr (a @ replicate k (last a)))"

subsection \<open>Wavelet processing functions\<close>

definition calculate_acceleration_magnitude :: "real \<Rightarrow> real \<Rightarrow> real \<Rightarrow> real" where
  "calculate_acceleration_magnitude acc_x acc_y acc_z = sqrt (acc_x\<^sup>2 + acc_y\<^sup>2 + acc_z\<^sup>2)"

definition detect_motion_segments :: "real list \<Rightarrow> real \<Rightarrow> bool list" where
  "detect_motion_segments acc_magnitude thr = map (\<lambda>a. a > thr) acc_magnitude"

definition apply_wavelet_thresholding :: "pywt \<Rightarrow> real list \<Rightarrow> real \<Rightarrow> string \<Rightarrow> real list" where
  "apply_wavelet_thresholding lib coeffs threshold_value mode = threshold lib coeffs threshold_value mode"

text \<open>Lines 77-78: the base threshold from the last coefficient array (the finest
  detail band) and the length of the signal.\<close>

definition threshold_base :: "real list list \<Rightarrow> nat \<Rightarrow> real" where
  "threshold_base coeffs n =
     (let sigma = np_median (map abs (last coeffs)) / (6745 / 10000)
      in sigma * sqrt (2 * ln (real n)))"

text \<open>Lines 85-91, the body of the loop for index \<open>i\<close>: the level factor and the
  threshold chosen by the motion ratio.\<close>

definition band_threshold :: "real \<Rightarrow> bool list \<Rightarrow> nat \<Rightarrow> nat \<Rightarrow> real" where
  "band_threshold tb motion_mask ncoeffs i =
     (let level_factor = (15 / 10) ^ (ncoeffs - i) in
      if np_mean motion_mask > 3 / 10
      then tb * THRESHOLD_MULTIPLIER_HIGH_MOTION * level_factor
      else tb * THRESHOLD_MULTIPLIER_LOW_MOTION * level_factor)"

text \<open>Lines 81-94: the coefficient list handed to the reconstruction. The loop
  \<^verbatim>\<open>for i in range(1, len(coeffs))\<close> appends one thresholded band per index.\<close>

definition coeffs_filtered :: "pywt \<Rightarrow> real list list \<Rightarrow> nat \<Rightarrow> bool list \<Rightarrow> real list list" where
  "coeffs_filtered lib coeffs n motion_mask =
     (let tb = threshold_base coeffs n in
      (coeffs ! 0) #
      map (\<lambda>i. apply_wavelet_thresholding lib (coeffs ! i)
                  (band_threshold tb motion_mask (length coeffs) i) ''soft'')
          [1..<length coeffs])"

text \<open>Lines 100-103: the length adjustment.\<close>

definition adjust_length :: "real list \<Rightarrow> nat \<Rightarrow> error + real list" where
  "adjust_length ecg_filtered n =
     (if length ecg_filtered > n then Inr (take n ecg_filtered)
      else if length ecg_filtered < n then np_pad_edge ecg_filtered (n - length ecg_filtered)
      else Inr ecg_filtered)"

text \<open>\<^verbatim>\<open>adaptive_wavelet_filter\<close>. On an empty signal the call \<^verbatim>\<open>pywt.wavedec\<close> of
  line 74 raises ValueError, which nothing catches; the record \<open>lib\<close> stands for the
  library on the signals it decomposes, the non-empty ones. The read \<^verbatim>\<open>coeffs[-1]\<close> of
  line 77 raises IndexError on an empty coefficient list.\<close>

definition adaptive_wavelet_filter ::
  "pywt \<Rightarrow> real list \<Rightarrow> bool list \<Rightarrow> string \<Rightarrow> nat \<Rightarrow> error + real list" where
  "adaptive_wavelet_filter lib ecg_signal motion_mask wavelet level =
     (if ecg_signal = [] then Inl ValueError
      else
        let coeffs = wavedec lib ecg_signal wavelet level in
        if coeffs = [] then Inl IndexError
        else
          let ecg_filtered = waverec lib (coeffs_filtered lib coeffs (length ecg_signal) motion_mask) wavelet
          in adjust_length ecg_filtered (length ecg_signal))"

subsection \<open>WaveletProcessor\<close>

text \<open>The state of a \<^verbatim>\<open>WaveletProcessor\<close>: the five buffers, the motion threshold
  (\<open>None\<close> is Python's \<^verbatim>\<open>None\<close>) and the rows appended so far to \<^verbatim>\<open>raw_data.csv\<close> and
  \<^verbatim>\<open>filtered_data.csv\<close>. A filtered row is
  \<open>(timestamp, ECG_I_filt, ECG_II_filt, ECG_III_filt)\<close>.\<close>

record processor =
  ecg_I_buffer :: "real list"
  ecg_II_buffer :: "real list"
  ecg_III_buffer :: "real list"
  acc_mag_buffer :: "real list"
  timestamp_buffer :: "real list"
  acc_threshold :: "real option"
  raw_csv :: "real list list"
  filtered_csv :: "(real \<times> real \<times> real \<times> real) list"

text \<open>The state after \<^verbatim>\<open>__init__\<close>: empty buffers, no threshold, two files holding their
  header only.\<close>

definition init_processor :: processor where
  "init_processor =
     \<lparr>ecg_I_buffer = [], ecg_II_buffer = [], ecg_III_buffer = [], acc_mag_buffer = [],
      timestamp_buffer = [], acc_threshold = None, raw_csv = [], filtered_csv = []\<rparr>"

definition save_raw_sample :: "processor \<Rightarrow> real list \<Rightarrow> processor" where
  "save_raw_sample s data = s\<lparr>raw_csv := raw_csv s @ [data]\<rparr>"

text \<open>Lines 219-223 of \<^verbatim>\<open>process_sample\<close>: one entry is appended to every buffer.\<close>

definition append_buffers :: "processor \<Rightarrow> real \<Rightarrow> real \<Rightarrow> real \<Rightarrow> real \<Rightarrow> real \<Rightarrow> processor" where
  "append_buffers s timestamp ecg_I ecg_II ecg_III acc_mag =
     s\<lparr>timestamp_buffer := timestamp_buffer s @ [timestamp],
       ecg_I_buffer := ecg_I_buffer s @ [ecg_I],
       ecg_II_buffer := ecg_II_buffer s @ [ecg_II],
       ecg_III_buffer := ecg_III_buffer s @ [ecg_III],
       acc_mag_buffer := acc_mag_buffer s @ [acc_mag]\<rparr>"

text \<open>The Python slice \<^verbatim>\<open>xs[-k:]\<close> for \<open>k \<ge> 0\<close>: the last \<open>k\<close> entries, the whole list
  when it has fewer, and the whole list for \<open>k = 0\<close> (\<^verbatim>\<open>xs[-0:]\<close> is \<^verbatim>\<open>xs[0:]\<close>).\<close>

definition py_last :: "nat \<Rightarrow> 'a list \<Rightarrow> 'a list" where
  "py_last k xs = (if k = 0 then xs else drop (length xs - k) xs)"

text \<open>Lines 230-234 of \<^verbatim>\<open>process_sample\<close>: the window slides, every buffer keeps its
  overlap.\<close>

definition slide_buffers :: "processor \<Rightarrow> processor" where
  "slide_buffers s =
     s\<lparr>timestamp_buffer := py_last OVERLAP (timestamp_buffer s),
       ecg_I_buffer := py_last OVERLAP (ecg_I_buffer s),
       ecg_II_buffer := py_last OVERLAP (ecg_II_buffer s),
       ecg_III_buffer := py_last OVERLAP (ecg_III_buffer s),
       acc_mag_buffer := py_last OVERLAP (acc_mag_buffer s)\<rparr>"

text \<open>Lines 275-278 of \<^verbatim>\<open>_process_window\<close>: the loop \<^verbatim>\<open>for i in range(n_new_samples)\<close>
  writes the row of index \<open>i\<close> of the four arrays; an index past the end of one of them
  raises IndexError. A negative \<open>n_new_samples\<close> gives an empty range.\<close>

definition filtered_lines ::
  "real list \<Rightarrow> real list \<Rightarrow> real list \<Rightarrow> real list \<Rightarrow> int
     \<Rightarrow> error + (real \<times> real \<times> real \<times> real) list" where
  "filtered_lines timestamps ecg_I_filt ecg_II_filt ecg_III_filt n_new_samples =
     (let k = nat n_new_samples in
      if k \<le> length timestamps \<and> k \<le> length ecg_I_filt \<and> k \<le> length ecg_II_filt
           \<and> k \<le> length ecg_III_filt
      then Inr (map (\<lambda>i. (timestamps ! i, ecg_I_filt ! i, ecg_II_filt ! i, ecg_III_filt ! i)) [0..<k])
      else Inl IndexError)"

text \<open>Lines 253-254 of \<^verbatim>\<open>_process_window\<close>: the threshold is computed when it is
  \<^verbatim>\<open>None\<close>, and read otherwise.\<close>

definition calibrate :: "real option \<Rightarrow> real list \<Rightarrow> error + real" where
  "calibrate thr acc_mag =
     (case thr of None \<Rightarrow> np_percentile acc_mag ACC_THRESHOLD_PERCENTILE | Some t \<Rightarrow> Inr t)"

definition process_window :: "pywt \<Rightarrow> processor \<Rightarrow> error + processor" where
  "process_window lib s =
     (let timestamps = timestamp_buffer s;
          ecg_I = ecg_I_buffer s;
          ecg_II = ecg_II_buffer s;
          ecg_III = ecg_III_buffer s;
          acc_mag = acc_mag_buffer s
      in
      case calibrate (acc_threshold s) acc_mag of Inl e \<Rightarrow> Inl e | Inr thr \<Rightarrow>
      let motion_mask = detect_motion_segments acc_mag thr in
      case adaptive_wavelet_filter lib ecg_I motion_mask WAVELET_TYPE DECOMPOSITION_LEVEL of
        Inl e \<Rightarrow> Inl e | Inr ecg_I_filt \<Rightarrow>
      case adaptive_wavelet_filter lib ecg_II motion_mask WAVELET_TYPE DECOMPOSITION_LEVEL of
        Inl e \<Rightarrow> Inl e | Inr ecg_II_filt \<Rightarrow>
      case adaptive_wavelet_filter lib ecg_III motion_mask WAVELET_TYPE DECOMPOSITION_LEVEL of
        Inl e \<Rightarrow> Inl e | Inr ecg_III_filt \<Rightarrow>
      let n_new_samples = int (length timestamps) - int OVERLAP in
      case filtered_lines timestamps ecg_I_filt ecg_II_filt ecg_III_filt n_new_samples of
        Inl e \<Rightarrow> Inl e
      | Inr rows \<Rightarrow> Inr (s\<lparr>acc_threshold := Some thr, filtered_csv := filtered_csv s @ rows\<rparr>))"

text \<open>\<^verbatim>\<open>process_sample\<close>. The unpacking of line 217 raises ValueError unless \<open>data\<close> has
  exactly 8 entries; entries 4 to 6 (AccX, AccY, AccZ) are unpacked and not used.\<close>

definition process_sample :: "pywt \<Rightarrow> processor \<Rightarrow> real list \<Rightarrow> error + processor" where
  "process_sample lib s data =
     (let s1 = save_raw_sample s data in
      if length data \<noteq> 8 then Inl ValueError
      else
        let s2 = append_buffers s1 (data ! 0) (data ! 1) (data ! 2) (data ! 3) (data ! 7) in
        if length (ecg_I_buffer s2) \<ge> WINDOW_SIZE
        then (case process_window lib s2 of Inl e \<Rightarrow> Inl e | Inr s3 \<Rightarrow> Inr (slide_buffers s3))
        else Inr s2)"

text \<open>The processing loop of \<^verbatim>\<open>HolterSystem\<close> hands the samples of the queue to
  \<^verbatim>\<open>process_sample\<close> one after the other, in their order of arrival.\<close>

fun run :: "pywt \<Rightarrow> processor \<Rightarrow> real list list \<Rightarrow> error + processor" where
  "run lib s [] = Inr s"
| "run lib s (d # ds) =
     (case process_sample lib s d of Inl e \<Rightarrow> Inl e | Inr s' \<Rightarrow> run lib s' ds)"

text \<open>All five buffers have the same length.\<close>

definition buffers_synced :: "processor \<Rightarrow> bool" where
  "buffers_synced s \<longleftrightarrow>
     length (ecg_I_buffer s) = length (timestamp_buffer s)
     \<and> length (ecg_II_buffer s) = length (timestamp_buffer s)
     \<and> length (ecg_III_buffer s) = length (timestamp_buffer s)
     \<and> length (acc_mag_buffer s) = length (timestamp_buffer s)"

text \<open>What the theorems on whole windows ask of the library: a decomposition has at
  least one band and a reconstruction at least one sample.\<close>

definition lib_returns :: "pywt \<Rightarrow> bool" where
  "lib_returns lib \<longleftrightarrow>
     (\<forall>x w l. wavedec lib x w l \<noteq> []) \<and> (\<forall>cs w. waverec lib cs w \<noteq> [])"

subsection \<open>UDPReceiver\<close>

text \<open>
  A datagram is modelled after \<^verbatim>\<open>data.decode('utf-8')\<close> has returned, as the ASCII text
  of the wire format. The receiver's state is the queue it shares with the processing loop
  and the lines it has printed.

  The conversion \<^verbatim>\<open>float(x)\<close> is a parameter of the receiving step: a function from
  the text of a field to the value, \<open>None\<close> where Python raises ValueError. The
  properties of the step hold for every such function; \<open>py_float\<close> below writes the
  conversion out, after the grammar of the Python language reference, for the examples.
\<close>

datatype log_line = SYSTEM_line string | WARNING_line string

record 'v receiver =
  data_queue :: "'v list list"
  printed :: "log_line list"

text \<open>The whitespace that \<^verbatim>\<open>str.strip()\<close> removes, among the ASCII characters: tab,
  line feed, vertical tab, form feed, carriage return, the four separators
  \<^verbatim>\<open>\x1c\<close> to \<^verbatim>\<open>\x1f\<close>, and the space.\<close>

definition is_space :: "char \<Rightarrow> bool" where
  "is_space c \<longleftrightarrow> (let k = (of_char c :: nat) in (9 \<le> k \<and> k \<le> 13) \<or> (28 \<le> k \<and> k \<le> 32))"

definition strip :: "string \<Rightarrow> string" where
  "strip s = rev (dropWhile is_space (rev (dropWhile is_space s)))"

definition startswith :: "string \<Rightarrow> string \<Rightarrow> bool" where
  "startswith s p \<longleftrightarrow> take (length p) s = p"

text \<open>\<^verbatim>\<open>s.split(',')\<close>: the fields between the separators, from left to right;
  never an empty list. \<open>cur\<close> holds the characters of the field being read, the last
  one first.\<close>

fun split_from :: "char \<Rightarrow> string \<Rightarrow> string \<Rightarrow> string list" where
  "split_from sep cur [] = [rev cur]"
| "split_from sep cur (c # cs) =
     (if c = sep then rev cur # split_from sep [] cs else split_from sep (c # cur) cs)"

definition split :: "char \<Rightarrow> string \<Rightarrow> string list" where
  "split sep s = split_from sep [] s"

text \<open>One pass of the body of \<^verbatim>\<open>_receive_loop\<close> on a received datagram. The list
  comprehension of line 143 raises at the first field that is not a float, which
  \<open>those\<close> renders: \<open>None\<close> as soon as one conversion is \<open>None\<close>.\<close>

definition receive :: "(string \<Rightarrow> 'v option) \<Rightarrow> string \<Rightarrow> 'v receiver \<Rightarrow> 'v receiver" where
  "receive float data r =
     (let message = strip data in
      if startswith message ''ERROR'' \<or> startswith message ''SYSTEM''
      then r\<lparr>printed := printed r @ [SYSTEM_line message]\<rparr>
      else
        (case those (map float (split CHR '','' message)) of
           None \<Rightarrow> r\<lparr>printed := printed r @ [WARNING_line message]\<rparr>
         | Some values \<Rightarrow>
             if length values = 8 then r\<lparr>data_queue := data_queue r @ [values]\<rparr> else r))"

text \<open>The values of \<^verbatim>\<open>float(x)\<close>: a finite number, an infinity with its sign
  (\<open>True\<close> for the negative one), or nan. The finite number is idealised as a real: the
  rounding to the nearest double, and with it the infinity that Python gives for a literal
  beyond the largest double, are not part of the model.\<close>

datatype pyfloat = Finite real | Infinity bool | NaN

definition is_digit :: "char \<Rightarrow> bool" where
  "is_digit c \<longleftrightarrow> 48 \<le> (of_char c :: nat) \<and> (of_char c :: nat) \<le> 57"

definition digit_val :: "char \<Rightarrow> nat" where
  "digit_val c = of_char c - 48"

definition lower :: "char \<Rightarrow> char" where
  "lower c = (let k = (of_char c :: nat) in if 65 \<le> k \<and> k \<le> 90 then char_of (k + 32) else c)"

text \<open>The rest of a digit part after its first digit: digits, each of them possibly
  preceded by one underscore.\<close>

fun digits_rest :: "string \<Rightarrow> nat list \<times> string" where
  "digits_rest [] = ([], [])"
| "digits_rest [c] = (if is_digit c then ([digit_val c], []) else ([], [c]))"
| "digits_rest (c # c' # cs) =
     (if is_digit c then (case digits_rest (c' # cs) of (ds, r) \<Rightarrow> (digit_val c # ds, r))
      else if c = CHR ''_'' \<and> is_digit c' then (case digits_rest cs of (ds, r) \<Rightarrow> (digit_val c' # ds, r))
      else ([], c # c' # cs))"

definition digitpart :: "string \<Rightarrow> (nat list \<times> string) option" where
  "digitpart s =
     (case s of
        [] \<Rightarrow> None
      | c # cs \<Rightarrow> if is_digit c then (case digits_rest cs of (ds, r) \<Rightarrow> Some (digit_val c # ds, r))
                 else None)"

text \<open>\<open>number ::= [digitpart] "." digitpart | digitpart ["."]\<close>: the digits before the
  point, the digits after it, and the text that follows.\<close>

definition number :: "string \<Rightarrow> (nat list \<times> nat list \<times> string) option" where
  "number s =
     (case digitpart s of
        Some (ip, r) \<Rightarrow>
          (case r of
             [] \<Rightarrow> Some (ip, [], [])
           | c # r' \<Rightarrow>
               if c = CHR ''.'' then
                 (case digitpart r' of Some (fp, r'') \<Rightarrow> Some (ip, fp, r'') | None \<Rightarrow> Some (ip, [], r'))
               else Some (ip, [], r))
      | None \<Rightarrow>
          (case s of
             [] \<Rightarrow> None
           | c # r' \<Rightarrow>
               if c = CHR ''.'' then
                 (case digitpart r' of Some (fp, r'') \<Rightarrow> Some ([], fp, r'') | None \<Rightarrow> None)
               else None))"

definition sign :: "string \<Rightarrow> bool \<times> string" where
  "sign s =
     (case s of
        [] \<Rightarrow> (False, [])
      | c # cs \<Rightarrow> if c = CHR ''-'' then (True, cs) else if c = CHR ''+'' then (False, cs) else (False, s))"

text \<open>\<open>exponent ::= ("e" | "E") [sign] digitpart\<close>, up to the end of the text; no
  exponent is the exponent \<open>0\<close>.\<close>

definition exponent :: "string \<Rightarrow> int option" where
  "exponent r =
     (case r of
        [] \<Rightarrow> Some 0
      | c # r' \<Rightarrow>
          if c = CHR ''e'' \<or> c = CHR ''E'' then
            (case sign r' of (neg, r'') \<Rightarrow>
               (case digitpart r'' of
                  Some (ds, rest) \<Rightarrow>
                    if rest = [] then Some ((if neg then - 1 else 1) * foldl (\<lambda>a d. 10 * a + int d) 0 ds)
                    else None
                | None \<Rightarrow> None))
          else None)"

definition scale :: "real \<Rightarrow> int \<Rightarrow> real" where
  "scale m e = (if 0 \<le> e then m * 10 ^ nat e else m / 10 ^ nat (- e))"

text \<open>The whitespace that \<^verbatim>\<open>float\<close> skips around an ASCII text is that of C: tab, line
  feed, vertical tab, form feed, carriage return and the space. The separators
  \<^verbatim>\<open>\x1c\<close> to \<^verbatim>\<open>\x1f\<close>, which \<^verbatim>\<open>str.strip()\<close> removes, are not skipped: a field
  that keeps one of them is not a float.\<close>

definition is_c_space :: "char \<Rightarrow> bool" where
  "is_c_space c \<longleftrightarrow> (let k = (of_char c :: nat) in (9 \<le> k \<and> k \<le> 13) \<or> k = 32)"

definition strip_c :: "string \<Rightarrow> string" where
  "strip_c s = rev (dropWhile is_c_space (rev (dropWhile is_c_space s)))"

definition py_float :: "string \<Rightarrow> pyfloat option" where
  "py_float x =
     (case sign (strip_c x) of (neg, u) \<Rightarrow>
        if map lower u = ''inf'' \<or> map lower u = ''infinity'' then Some (Infinity neg)
        else if map lower u = ''nan'' then Some NaN
        else
          (case number u of
             None \<Rightarrow> None
           | Some (ip, fp, r) \<Rightarrow>
               (case exponent r of
                  None \<Rightarrow> None
                | Some e \<Rightarrow>
                    Some (Finite ((if neg then - 1 else 1)
                      * scale (foldl (\<lambda>a d. 10 * a + real d) 0 (ip @ fp)) (e - int (length fp)))))))"

section \<open>Properties\<close>

subsection \<open>Length of the filter's output\<close>

lemma adjust_length_ok:
  assumes "r \<noteq> [] \<or> n = 0"
  shows "\<exists>y. adjust_length r n = Inr y \<and> length y = n
           \<and> y = (if n \<le> length r then take n r
                  else r @ replicate (n - length r) (last r))"
  using assms by (auto simp: adjust_length_def np_pad_edge_def)

lemma adjust_length_length: "adjust_length r n = Inr y \<Longrightarrow> length y = n"
  by (auto simp: adjust_length_def np_pad_edge_def split: if_splits)

lemma filter_length: "adaptive_wavelet_filter lib x m w L = Inr y \<Longrightarrow> length y = length x"
  by (auto simp: adaptive_wavelet_filter_def Let_def adjust_length_length split: if_splits)

lemma filter_returns:
  assumes "lib_returns lib" and "x \<noteq> []"
  shows "\<exists>y. adaptive_wavelet_filter lib x m w L = Inr y \<and> length y = length x"
proof -
  let ?r = "waverec lib (coeffs_filtered lib (wavedec lib x w L) (length x) m) w"
  from assms(1) have a: "wavedec lib x w L \<noteq> []" and b: "?r \<noteq> []"
    by (simp_all add: lib_returns_def)
  from adjust_length_ok[of ?r "length x"] b
  obtain y where "adjust_length ?r (length x) = Inr y" and "length y = length x"
    by blast
  with a assms(2) show ?thesis by (simp add: adaptive_wavelet_filter_def Let_def)
qed




subsection \<open>The thresholds of the detail bands\<close>

lemma coeffs_filtered_length: "length (coeffs_filtered lib coeffs n m) = max 1 (length coeffs)"
  by (simp add: coeffs_filtered_def Let_def)

lemma coeffs_filtered_nth:
  assumes "1 \<le> i" and "i < length coeffs"
  shows "coeffs_filtered lib coeffs n m ! i
       = threshold lib (coeffs ! i) (band_threshold (threshold_base coeffs n) m (length coeffs) i) ''soft''"
proof -
  from assms obtain j where j: "i = Suc j" by (cases i) auto
  with assms(2) have "j < length [1..<length coeffs]" by simp
  then have "map (\<lambda>i. apply_wavelet_thresholding lib (coeffs ! i)
                  (band_threshold (threshold_base coeffs n) m (length coeffs) i) ''soft'') [1..<length coeffs] ! j
     = apply_wavelet_thresholding lib (coeffs ! ([1..<length coeffs] ! j))
                  (band_threshold (threshold_base coeffs n) m (length coeffs) ([1..<length coeffs] ! j)) ''soft''"
    by (rule nth_map)
  moreover have "[1..<length coeffs] ! j = i" using j assms(2) by simp
  ultimately show ?thesis
    unfolding coeffs_filtered_def Let_def j by (simp add: apply_wavelet_thresholding_def)
qed

text \<open>
  Claim C6. When the decomposition has \<open>L + 1\<close> bands (the approximation and \<open>L\<close> detail
  bands, as \<^verbatim>\<open>pywt.wavedec\<close> returns for level \<open>L\<close>), the band of index \<open>i\<close>, for
  \<open>1 \<le> i \<le> L\<close>, is soft-thresholded with \<open>T0 * multiplier * 1.5 ^ (L + 1 - i)\<close>, where
  \<open>T0 = median |finest band| / 0.6745 * sqrt (2 ln N)\<close> and the multiplier is \<open>2.5\<close>
  exactly when the motion ratio exceeds \<open>0.3\<close> and \<open>1.0\<close> otherwise.
\<close>

theorem band_threshold_formula:
  assumes "length (wavedec lib x w L) = L + 1" and "1 \<le> i" and "i \<le> L"
  shows "coeffs_filtered lib (wavedec lib x w L) (length x) m ! i
       = threshold lib (wavedec lib x w L ! i)
           (np_median (map abs (last (wavedec lib x w L))) / (6745 / 10000) * sqrt (2 * ln (real (length x)))
              * (if np_mean m > 3 / 10 then 25 / 10 else 1)
              * (15 / 10) ^ (L + 1 - i))
           ''soft''"
proof -
  from assms have i: "1 \<le> i" "i < length (wavedec lib x w L)" by simp_all
  show ?thesis
    unfolding coeffs_filtered_nth[OF i] assms(1)
    by (simp add: band_threshold_def threshold_base_def Let_def
        THRESHOLD_MULTIPLIER_HIGH_MOTION_def THRESHOLD_MULTIPLIER_LOW_MOTION_def)
qed

theorem band_threshold_formula_witness:
  "(let lib = \<lparr>wavedec = (\<lambda>x w l. replicate (Suc l) x), waverec = (\<lambda>cs w. [0]), threshold = (\<lambda>c v m. map (\<lambda>a. a - v) c)\<rparr>
    in length (wavedec lib [3, 1, 2] ''db4'' 5) = 5 + 1
     \<and> coeffs_filtered lib (wavedec lib [3, 1, 2] ''db4'' 5) (length [3, 1, 2 :: real]) [True, False, True] ! 2
       = threshold lib (wavedec lib [3, 1, 2] ''db4'' 5 ! 2)
           (np_median (map abs (last (wavedec lib [3, 1, 2] ''db4'' 5))) / (6745 / 10000) * sqrt (2 * ln (real (length [3, 1, 2 :: real])))
              * (if np_mean [True, False, True] > 3 / 10 then 25 / 10 else 1)
              * (15 / 10) ^ (5 + 1 - 2))
           ''soft'')"
  using band_threshold_formula[of
      "\<lparr>wavedec = (\<lambda>x w l. replicate (Suc l) x), waverec = (\<lambda>cs w. [0]), threshold = (\<lambda>c v m. map (\<lambda>a. a - v) c)\<rparr>"
      "[3, 1, 2]" "''db4''" 5 2 "[True, False, True]"]
  by (simp add: Let_def)

lemma np_median_zeros: "np_median (replicate k 0) = 0"
proof -
  have s: "sort (replicate k (0::real)) = replicate k 0"
    by (rule sorted_sort_id) (simp add: sorted_replicate)
  show ?thesis
    by (cases "k = 0") (simp_all add: np_median_def Let_def s)
qed

text \<open>
  Claim C7 as stated fails where the base threshold is zero. The decomposition of a window
  of 500 zero samples has six bands of zeros (of lengths 22, 22, 37, 68, 130 and 253 for
  \<^verbatim>\<open>db4\<close> at level 5): the median of the finest band is \<open>0\<close>, so \<open>T0 = 0\<close>, and both
  the high-motion and the low-motion threshold of a band are \<open>0\<close>: neither is strictly
  greater than the other.
\<close>

theorem motion_multiplier_not_strict_counterexample:
  "np_mean (replicate 500 True) > 3 / 10
   \<and> \<not> np_mean (replicate 500 False) > 3 / 10
   \<and> \<not> band_threshold
         (threshold_base [replicate 22 0, replicate 22 0, replicate 37 0, replicate 68 0, replicate 130 0, replicate 253 0] 500)
         (replicate 500 True) 6 1
       > band_threshold
         (threshold_base [replicate 22 0, replicate 22 0, replicate 37 0, replicate 68 0, replicate 130 0, replicate 253 0] 500)
         (replicate 500 False) 6 1"
proof -
  have t: "threshold_base [replicate 22 0, replicate 22 0, replicate 37 0, replicate 68 0, replicate 130 0, replicate 253 0] 500 = 0"
    unfolding threshold_base_def Let_def by (simp add: np_median_zeros)
  have "np_mean (replicate 500 True) = 1" by (simp add: np_mean_def)
  moreover have "np_mean (replicate 500 False) = 0" by (simp add: np_mean_def)
  ultimately show ?thesis unfolding t by (simp add: band_threshold_def)
qed

text \<open>
  Claim C7, amended. For every coefficient list, signal length and band, and two masks
  whose motion ratios lie on the two sides of \<open>0.3\<close>: if the threshold computed with the
  high-motion multiplier is strictly greater than the one computed with the low-motion
  multiplier, the base threshold \<open>T0\<close> is positive; conversely, when \<open>T0\<close> is positive
  and the low-motion threshold is within the range of a double (at most \<open>DBL_MAX\<close>, so
  that it does not overflow to \<^verbatim>\<open>inf\<close>), the high-motion threshold is strictly greater;
  and when \<open>T0 = 0\<close> both thresholds are \<open>0\<close>. Beyond that range both products are
  \<^verbatim>\<open>inf\<close> in the code and neither is greater, which the reals of this model do not
  show: the statement stops at the bound.
\<close>

theorem motion_multiplier_strict_in_range:
  assumes "np_mean mask_hi > 3 / 10" and "\<not> np_mean mask_lo > 3 / 10"
  shows "(band_threshold (threshold_base coeffs n) mask_hi nc i
            > band_threshold (threshold_base coeffs n) mask_lo nc i
          \<longrightarrow> threshold_base coeffs n > 0)
       \<and> (threshold_base coeffs n > 0
            \<and> band_threshold (threshold_base coeffs n) mask_lo nc i \<le> DBL_MAX
          \<longrightarrow> band_threshold (threshold_base coeffs n) mask_hi nc i
                > band_threshold (threshold_base coeffs n) mask_lo nc i)
       \<and> (threshold_base coeffs n = 0 \<longrightarrow>
            band_threshold (threshold_base coeffs n) mask_hi nc i = 0
          \<and> band_threshold (threshold_base coeffs n) mask_lo nc i = 0)"
proof -
  define f :: real where "f = (15 / 10) ^ (nc - i)"
  define t where "t = threshold_base coeffs n"
  have f: "0 < f" unfolding f_def by simp
  have "t * (25 / 10) * f > t * 1 * f \<longleftrightarrow> t > 0"
  proof
    assume "t * (25 / 10) * f > t * 1 * f"
    then have "t * (15 / 10) * f > 0" by (simp add: algebra_simps)
    with f show "t > 0" by (simp add: zero_less_mult_iff)
  next
    assume "t > 0"
    with f have "t * f > 0" by simp
    then show "t * (25 / 10) * f > t * 1 * f" by (simp add: algebra_simps)
  qed
  then show ?thesis
    using assms unfolding band_threshold_def Let_def f_def t_def
      THRESHOLD_MULTIPLIER_HIGH_MOTION_def THRESHOLD_MULTIPLIER_LOW_MOTION_def
    by simp
qed

theorem motion_multiplier_strict_in_range_witness:
  "np_mean [True, True] > 3 / 10 \<and> \<not> np_mean [False, True, False, False] > 3 / 10
   \<and> threshold_base [[1], [2, 3, 4]] 8 > 0
   \<and> band_threshold (threshold_base [[1], [2, 3, 4]] 8) [False, True, False, False] 2 1 \<le> DBL_MAX
   \<and> band_threshold (threshold_base [[1], [2, 3, 4]] 8) [True, True] 2 1
       > band_threshold (threshold_base [[1], [2, 3, 4]] 8) [False, True, False, False] 2 1"
proof -
  have hi: "np_mean [True, True] > 3 / 10" by (simp add: np_mean_def)
  have lo: "\<not> np_mean [False, True, False, False] > 3 / 10" by (simp add: np_mean_def)
  have "sort [2, 3, 4 :: real] = [2, 3, 4]" by simp
  then have m: "np_median (map abs [2, 3, 4]) = 3" by (simp add: np_median_def Let_def)
  have tb: "threshold_base [[1], [2, 3, 4]] 8 = 3 / (6745 / 10000) * sqrt (2 * ln 8)"
    unfolding threshold_base_def Let_def using m by simp
  have "ln (8::real) > 0" by simp
  then have s0: "sqrt (2 * ln 8) > 0" by simp
  then have pos: "threshold_base [[1], [2, 3, 4]] 8 > 0" unfolding tb by simp
  have "ln (8::real) \<le> 8 - 1" by (rule ln_le_minus_one) simp
  then have "sqrt (2 * ln 8) \<le> sqrt 16" by (intro real_sqrt_le_mono) simp
  moreover have "sqrt 16 = (4::real)" using real_sqrt_abs[of 4] by simp
  ultimately have s4: "sqrt (2 * ln 8) \<le> 4" by simp
  have "3 / (6745 / 10000) * sqrt (2 * ln 8) \<le> 3 / (6745 / 10000) * 4"
    by (intro mult_left_mono s4) simp
  then have "threshold_base [[1], [2, 3, 4]] 8 \<le> 18" unfolding tb by simp
  then have "band_threshold (threshold_base [[1], [2, 3, 4]] 8) [False, True, False, False] 2 1 \<le> 27"
    using lo by (simp add: band_threshold_def Let_def THRESHOLD_MULTIPLIER_LOW_MOTION_def)
  moreover have "(27::real) \<le> DBL_MAX" by (simp add: DBL_MAX_def)
  ultimately have rng: "band_threshold (threshold_base [[1], [2, 3, 4]] 8) [False, True, False, False] 2 1 \<le> DBL_MAX"
    by simp
  from motion_multiplier_strict_in_range[OF hi lo, of "[[1], [2, 3, 4]]" 8 2 1] pos rng hi lo
  show ?thesis by simp
qed

text \<open>
  Claim C8. For every input signal and motion mask, the coefficient list handed to
  \<^verbatim>\<open>pywt.waverec\<close> has the approximation band of the decomposition at index \<open>0\<close>,
  unchanged, and as many bands as the decomposition; every other band is the result of the
  soft thresholding of the detail band of the same index.
\<close>

theorem approximation_band_untouched:
  assumes "wavedec lib x w L \<noteq> []"
  shows "adaptive_wavelet_filter lib x m w L
           = (if x = [] then Inl ValueError
              else adjust_length (waverec lib (coeffs_filtered lib (wavedec lib x w L) (length x) m) w) (length x))
       \<and> coeffs_filtered lib (wavedec lib x w L) (length x) m ! 0 = wavedec lib x w L ! 0
       \<and> length (coeffs_filtered lib (wavedec lib x w L) (length x) m) = length (wavedec lib x w L)
       \<and> (\<forall>i. 1 \<le> i \<and> i < length (wavedec lib x w L) \<longrightarrow>
             coeffs_filtered lib (wavedec lib x w L) (length x) m ! i
               = threshold lib (wavedec lib x w L ! i)
                   (band_threshold (threshold_base (wavedec lib x w L) (length x)) m (length (wavedec lib x w L)) i)
                   ''soft'')"
proof -
  have "coeffs_filtered lib (wavedec lib x w L) (length x) m ! 0 = wavedec lib x w L ! 0"
    by (simp add: coeffs_filtered_def Let_def)
  moreover have "length (coeffs_filtered lib (wavedec lib x w L) (length x) m) = length (wavedec lib x w L)"
    using assms by (cases "wavedec lib x w L") (simp_all add: coeffs_filtered_length)
  moreover have "adaptive_wavelet_filter lib x m w L
           = (if x = [] then Inl ValueError
              else adjust_length (waverec lib (coeffs_filtered lib (wavedec lib x w L) (length x) m) w) (length x))"
    using assms by (simp add: adaptive_wavelet_filter_def Let_def)
  ultimately show ?thesis using coeffs_filtered_nth by blast
qed

theorem approximation_band_untouched_witness:
  "(let lib = \<lparr>wavedec = (\<lambda>x w l. replicate (Suc l) x), waverec = (\<lambda>cs w. [0]), threshold = (\<lambda>c v m. map (\<lambda>a. a - v) c)\<rparr>
    in wavedec lib [3, 1, 2] ''db4'' 5 \<noteq> []
     \<and> coeffs_filtered lib (wavedec lib [3, 1, 2] ''db4'' 5) (length [3, 1, 2 :: real]) [True, False, True] ! 0 = [3, 1, 2]
     \<and> length (coeffs_filtered lib (wavedec lib [3, 1, 2] ''db4'' 5) (length [3, 1, 2 :: real]) [True, False, True]) = 6)"
  using approximation_band_untouched[of
      "\<lparr>wavedec = (\<lambda>x w l. replicate (Suc l) x), waverec = (\<lambda>cs w. [0]), threshold = (\<lambda>c v m. map (\<lambda>a. a - v) c)\<rparr>"
      "[3, 1, 2]" "''db4''" 5 "[True, False, True]"]
  by (simp add: Let_def)

subsection \<open>The buffers\<close>

lemma OVERLAP_pos: "OVERLAP \<noteq> 0" by (simp add: OVERLAP_def)

lemma WINDOW_gt_OVERLAP: "OVERLAP < WINDOW_SIZE" by (simp add: OVERLAP_def WINDOW_SIZE_def)

lemma length_py_last_OVERLAP: "length (py_last OVERLAP xs) = min OVERLAP (length xs)"
  by (simp add: py_last_def OVERLAP_pos)

lemma py_last_OVERLAP_window:
  "length xs = WINDOW_SIZE \<Longrightarrow> py_last OVERLAP xs = drop (WINDOW_SIZE - OVERLAP) xs"
  by (simp add: py_last_def OVERLAP_def WINDOW_SIZE_def)

lemma sort_eq_Nil_iff: "sort xs = [] \<longleftrightarrow> xs = []"
  by (metis length_sort length_0_conv)

lemma calibrate_returns:
  "acc \<noteq> [] \<or> thr \<noteq> None \<Longrightarrow> \<exists>t. calibrate thr acc = Inr t"
proof (cases thr)
  case None
  assume "acc \<noteq> [] \<or> thr \<noteq> None"
  with None have "acc \<noteq> []" by simp
  then show ?thesis using None by (simp add: calibrate_def np_percentile_def Let_def sort_eq_Nil_iff)
next
  case (Some t)
  then show ?thesis by (simp add: calibrate_def)
qed

lemma calibrate_Some [simp]: "calibrate (Some t) acc = Inr t"
  by (simp add: calibrate_def)

lemma filtered_lines_ok:
  "k \<le> length ts \<Longrightarrow> k \<le> length a \<Longrightarrow> k \<le> length b \<Longrightarrow> k \<le> length c \<Longrightarrow>
   filtered_lines ts a b c (int k) = Inr (map (\<lambda>i. (ts ! i, a ! i, b ! i, c ! i)) [0..<k])"
  by (simp add: filtered_lines_def)

lemma process_window_returns:
  assumes lib: "lib_returns lib" and syn: "buffers_synced s"
    and ne: "timestamp_buffer s \<noteq> []"
  shows "\<exists>thr f1 f2 f3.
      calibrate (acc_threshold s) (acc_mag_buffer s) = Inr thr
    \<and> adaptive_wavelet_filter lib (ecg_I_buffer s) (detect_motion_segments (acc_mag_buffer s) thr) WAVELET_TYPE DECOMPOSITION_LEVEL = Inr f1
    \<and> adaptive_wavelet_filter lib (ecg_II_buffer s) (detect_motion_segments (acc_mag_buffer s) thr) WAVELET_TYPE DECOMPOSITION_LEVEL = Inr f2
    \<and> adaptive_wavelet_filter lib (ecg_III_buffer s) (detect_motion_segments (acc_mag_buffer s) thr) WAVELET_TYPE DECOMPOSITION_LEVEL = Inr f3
    \<and> length f1 = length (timestamp_buffer s) \<and> length f2 = length (timestamp_buffer s) \<and> length f3 = length (timestamp_buffer s)
    \<and> process_window lib s = Inr (s\<lparr>acc_threshold := Some thr,
          filtered_csv := filtered_csv s @ map (\<lambda>i. (timestamp_buffer s ! i, f1 ! i, f2 ! i, f3 ! i)) [0..<length (timestamp_buffer s) - OVERLAP]\<rparr>)"
proof -
  from syn ne have ne': "ecg_I_buffer s \<noteq> []" "ecg_II_buffer s \<noteq> []" "ecg_III_buffer s \<noteq> []"
    "acc_mag_buffer s \<noteq> []"
    by (auto simp: buffers_synced_def)
  from calibrate_returns[of "acc_mag_buffer s" "acc_threshold s"] ne'(4)
  obtain thr where c: "calibrate (acc_threshold s) (acc_mag_buffer s) = Inr thr" by blast
  let ?m = "detect_motion_segments (acc_mag_buffer s) thr"
  from filter_returns[OF lib ne'(1)] obtain f1 where f1: "adaptive_wavelet_filter lib (ecg_I_buffer s) ?m WAVELET_TYPE DECOMPOSITION_LEVEL = Inr f1" "length f1 = length (ecg_I_buffer s)" by blast
  from filter_returns[OF lib ne'(2)] obtain f2 where f2: "adaptive_wavelet_filter lib (ecg_II_buffer s) ?m WAVELET_TYPE DECOMPOSITION_LEVEL = Inr f2" "length f2 = length (ecg_II_buffer s)" by blast
  from filter_returns[OF lib ne'(3)] obtain f3 where f3: "adaptive_wavelet_filter lib (ecg_III_buffer s) ?m WAVELET_TYPE DECOMPOSITION_LEVEL = Inr f3" "length f3 = length (ecg_III_buffer s)" by blast
  let ?k = "length (timestamp_buffer s) - OVERLAP"
  have n: "nat (int (length (timestamp_buffer s)) - int OVERLAP) = ?k" by arith
  from syn f1 f2 f3 have l: "?k \<le> length (timestamp_buffer s)" "?k \<le> length f1" "?k \<le> length f2" "?k \<le> length f3"
    by (simp_all add: buffers_synced_def)
  have fl: "filtered_lines (timestamp_buffer s) f1 f2 f3 (int (length (timestamp_buffer s)) - int OVERLAP)
     = Inr (map (\<lambda>i. (timestamp_buffer s ! i, f1 ! i, f2 ! i, f3 ! i)) [0..<?k])"
    using l unfolding filtered_lines_def Let_def n by simp
  have "process_window lib s = Inr (s\<lparr>acc_threshold := Some thr,
          filtered_csv := filtered_csv s @ map (\<lambda>i. (timestamp_buffer s ! i, f1 ! i, f2 ! i, f3 ! i)) [0..<?k]\<rparr>)"
    unfolding process_window_def Let_def using c f1(1) f2(1) f3(1) fl by simp
  with c f1 f2 f3 syn show ?thesis by (auto simp: buffers_synced_def)
qed

lemma process_window_rows:
  assumes "process_window lib s = Inr s'"
  shows "\<exists>thr f1 f2 f3.
      calibrate (acc_threshold s) (acc_mag_buffer s) = Inr thr
    \<and> adaptive_wavelet_filter lib (ecg_I_buffer s) (detect_motion_segments (acc_mag_buffer s) thr) WAVELET_TYPE DECOMPOSITION_LEVEL = Inr f1
    \<and> adaptive_wavelet_filter lib (ecg_II_buffer s) (detect_motion_segments (acc_mag_buffer s) thr) WAVELET_TYPE DECOMPOSITION_LEVEL = Inr f2
    \<and> adaptive_wavelet_filter lib (ecg_III_buffer s) (detect_motion_segments (acc_mag_buffer s) thr) WAVELET_TYPE DECOMPOSITION_LEVEL = Inr f3
    \<and> s' = s\<lparr>acc_threshold := Some thr,
          filtered_csv := filtered_csv s @ map (\<lambda>i. (timestamp_buffer s ! i, f1 ! i, f2 ! i, f3 ! i)) [0..<length (timestamp_buffer s) - OVERLAP]\<rparr>"
proof -
  have n: "nat (int (length (timestamp_buffer s)) - int OVERLAP) = length (timestamp_buffer s) - OVERLAP" by arith
  show ?thesis
    using assms unfolding process_window_def Let_def filtered_lines_def n
    by (auto split: sum.splits if_splits)
qed

lemma process_window_frame:
  assumes "process_window lib s = Inr s'"
  shows "timestamp_buffer s' = timestamp_buffer s \<and> ecg_I_buffer s' = ecg_I_buffer s
       \<and> ecg_II_buffer s' = ecg_II_buffer s \<and> ecg_III_buffer s' = ecg_III_buffer s
       \<and> acc_mag_buffer s' = acc_mag_buffer s \<and> raw_csv s' = raw_csv s"
  using assms by (auto simp: process_window_def Let_def split: sum.splits)

lemma process_window_threshold:
  assumes "process_window lib s = Inr s'"
  shows "calibrate (acc_threshold s) (acc_mag_buffer s) = Inr (the (acc_threshold s')) \<and> acc_threshold s' \<noteq> None"
  using assms by (auto simp: process_window_def Let_def split: sum.splits)

lemma synced_append: "buffers_synced s \<Longrightarrow> buffers_synced (append_buffers s t a b c m)"
  by (simp add: buffers_synced_def append_buffers_def)

lemma synced_slide: "buffers_synced s \<Longrightarrow> buffers_synced (slide_buffers s)"
  by (simp add: buffers_synced_def slide_buffers_def length_py_last_OVERLAP)

lemma synced_save: "buffers_synced (save_raw_sample s d) = buffers_synced s"
  by (simp add: buffers_synced_def save_raw_sample_def)

lemma synced_process_window:
  "buffers_synced s \<Longrightarrow> process_window lib s = Inr s' \<Longrightarrow> buffers_synced s'"
  using process_window_frame[of lib s s'] by (simp add: buffers_synced_def)

lemma process_sample_cases:
  assumes "process_sample lib s d = Inr s'"
  shows "length d = 8 \<and>
    (let s2 = append_buffers (save_raw_sample s d) (d ! 0) (d ! 1) (d ! 2) (d ! 3) (d ! 7) in
     if WINDOW_SIZE \<le> length (ecg_I_buffer s) + 1
     then \<exists>s3. process_window lib s2 = Inr s3 \<and> s' = slide_buffers s3
     else s' = s2)"
  using assms
  by (auto simp: process_sample_def Let_def append_buffers_def save_raw_sample_def split: if_splits sum.splits)

lemma process_sample_synced:
  assumes "buffers_synced s" and "process_sample lib s d = Inr s'"
  shows "buffers_synced s'"
proof -
  let ?s2 = "append_buffers (save_raw_sample s d) (d ! 0) (d ! 1) (d ! 2) (d ! 3) (d ! 7)"
  have s2: "buffers_synced ?s2" using assms(1) by (simp add: synced_append synced_save)
  show ?thesis
  proof (cases "WINDOW_SIZE \<le> length (ecg_I_buffer ?s2)")
    case True
    with assms(2) obtain s3 where "process_window lib ?s2 = Inr s3" and "s' = slide_buffers s3"
      by (auto simp: process_sample_def Let_def split: if_splits sum.splits)
    with s2 show ?thesis by (simp add: synced_slide synced_process_window)
  next
    case False
    with assms(2) have "s' = ?s2"
      by (auto simp: process_sample_def Let_def split: if_splits)
    with s2 show ?thesis by simp
  qed
qed

text \<open>
  Claim C4. From a state whose five buffers have the same length: appending a sample adds
  one entry to each buffer and keeps the lengths equal; sliding leaves in each buffer
  \<open>min OVERLAP (previous length)\<close> entries and keeps the lengths equal; and the state after
  \<^verbatim>\<open>_process_window\<close> and after \<^verbatim>\<open>process_sample\<close>, when they return, has buffers of
  equal length again.
\<close>

theorem buffers_stay_synced:
  assumes "buffers_synced s"
  shows "buffers_synced (append_buffers s t a b c m)
       \<and> length (timestamp_buffer (append_buffers s t a b c m)) = length (timestamp_buffer s) + 1
       \<and> length (ecg_I_buffer (append_buffers s t a b c m)) = length (ecg_I_buffer s) + 1
       \<and> length (ecg_II_buffer (append_buffers s t a b c m)) = length (ecg_II_buffer s) + 1
       \<and> length (ecg_III_buffer (append_buffers s t a b c m)) = length (ecg_III_buffer s) + 1
       \<and> length (acc_mag_buffer (append_buffers s t a b c m)) = length (acc_mag_buffer s) + 1
       \<and> buffers_synced (slide_buffers s)
       \<and> length (timestamp_buffer (slide_buffers s)) = min OVERLAP (length (timestamp_buffer s))
       \<and> length (ecg_I_buffer (slide_buffers s)) = min OVERLAP (length (ecg_I_buffer s))
       \<and> length (ecg_II_buffer (slide_buffers s)) = min OVERLAP (length (ecg_II_buffer s))
       \<and> length (ecg_III_buffer (slide_buffers s)) = min OVERLAP (length (ecg_III_buffer s))
       \<and> length (acc_mag_buffer (slide_buffers s)) = min OVERLAP (length (acc_mag_buffer s))
       \<and> (\<forall>lib s'. process_window lib s = Inr s' \<longrightarrow> buffers_synced s')
       \<and> (\<forall>lib d s'. process_sample lib s d = Inr s' \<longrightarrow> buffers_synced s')"
proof -
  have "buffers_synced (append_buffers s t a b c m)" using assms by (rule synced_append)
  moreover have "buffers_synced (slide_buffers s)" using assms by (rule synced_slide)
  moreover have "\<forall>lib s'. process_window lib s = Inr s' \<longrightarrow> buffers_synced s'"
    using assms synced_process_window by blast
  moreover have "\<forall>lib d s'. process_sample lib s d = Inr s' \<longrightarrow> buffers_synced s'"
    using assms process_sample_synced by blast
  ultimately show ?thesis
    by (simp add: append_buffers_def slide_buffers_def length_py_last_OVERLAP)
qed

theorem buffers_stay_synced_witness:
  "(let s = \<lparr>ecg_I_buffer = replicate 500 1, ecg_II_buffer = replicate 500 2,
              ecg_III_buffer = replicate 500 3, acc_mag_buffer = replicate 500 4,
              timestamp_buffer = replicate 500 5, acc_threshold = None, raw_csv = [],
              filtered_csv = []\<rparr>
    in buffers_synced s
     \<and> buffers_synced (append_buffers s 6 7 8 9 10)
     \<and> length (ecg_I_buffer (append_buffers s 6 7 8 9 10)) = 501
     \<and> buffers_synced (slide_buffers s)
     \<and> length (ecg_I_buffer (slide_buffers s)) = 250
     \<and> length (timestamp_buffer (slide_buffers s)) = 250)"
  using buffers_stay_synced[of "\<lparr>ecg_I_buffer = replicate 500 1, ecg_II_buffer = replicate 500 2,
              ecg_III_buffer = replicate 500 3, acc_mag_buffer = replicate 500 4,
              timestamp_buffer = replicate 500 5, acc_threshold = None, raw_csv = [],
              filtered_csv = []\<rparr>" 6 7 8 9 10]
  by (simp add: buffers_synced_def OVERLAP_def Let_def)

subsection \<open>The states the processing loop reaches\<close>

lemma process_sample_inv:
  assumes "buffers_synced s \<and> length (timestamp_buffer s) < WINDOW_SIZE"
    and "process_sample lib s d = Inr s'"
  shows "buffers_synced s' \<and> length (timestamp_buffer s') < WINDOW_SIZE"
proof -
  have syn: "buffers_synced s'" using assms process_sample_synced by blast
  let ?s2 = "append_buffers (save_raw_sample s d) (d ! 0) (d ! 1) (d ! 2) (d ! 3) (d ! 7)"
  have "length (timestamp_buffer s') < WINDOW_SIZE"
  proof (cases "WINDOW_SIZE \<le> length (ecg_I_buffer s) + 1")
    case True
    with process_sample_cases[OF assms(2)] obtain s3 where "s' = slide_buffers s3"
      by (auto simp: Let_def)
    then have "length (timestamp_buffer s') \<le> OVERLAP"
      by (simp add: slide_buffers_def length_py_last_OVERLAP)
    with WINDOW_gt_OVERLAP show ?thesis by simp
  next
    case False
    with process_sample_cases[OF assms(2)] have "s' = ?s2" by (simp add: Let_def)
    with False assms(1) show ?thesis
      by (simp add: append_buffers_def save_raw_sample_def buffers_synced_def)
  qed
  with syn show ?thesis by simp
qed

lemma run_inv:
  assumes "buffers_synced s \<and> length (timestamp_buffer s) < WINDOW_SIZE"
    and "run lib s ds = Inr s'"
  shows "buffers_synced s' \<and> length (timestamp_buffer s') < WINDOW_SIZE"
  using assms
proof (induction ds arbitrary: s)
  case Nil
  then show ?case by simp
next
  case (Cons d ds)
  from Cons.prems(2) obtain s1 where s1: "process_sample lib s d = Inr s1" and r: "run lib s1 ds = Inr s'"
    by (auto split: sum.splits)
  from process_sample_inv[OF Cons.prems(1) s1] Cons.IH[OF _ r] show ?case by simp
qed

lemma init_inv: "buffers_synced init_processor \<and> length (timestamp_buffer init_processor) < WINDOW_SIZE"
  by (simp add: buffers_synced_def init_processor_def WINDOW_SIZE_def)

lemma reachable_inv:
  "run lib init_processor ds = Inr s \<Longrightarrow> buffers_synced s \<and> length (timestamp_buffer s) < WINDOW_SIZE"
  using run_inv[OF init_inv] by blast

lemma run_append:
  "run lib s (xs @ ys) = (case run lib s xs of Inl e \<Rightarrow> Inl e | Inr s' \<Rightarrow> run lib s' ys)"
  by (induction xs arbitrary: s) (auto split: sum.splits)

lemma run_lengths:
  "run lib s ds = Inr s' \<Longrightarrow> \<forall>d\<in>set ds. length d = 8"
proof (induction ds arbitrary: s)
  case Nil
  then show ?case by simp
next
  case (Cons d ds)
  from Cons.prems obtain s1 where s1: "process_sample lib s d = Inr s1" and r: "run lib s1 ds = Inr s'"
    by (auto split: sum.splits)
  from process_sample_cases[OF s1] Cons.IH[OF r] show ?case by simp
qed

lemma run_filling:
  assumes "length ds < WINDOW_SIZE" and "\<forall>d\<in>set ds. length d = 8"
  shows "run lib init_processor ds =
     Inr \<lparr>ecg_I_buffer = map (\<lambda>d. d ! 1) ds, ecg_II_buffer = map (\<lambda>d. d ! 2) ds,
          ecg_III_buffer = map (\<lambda>d. d ! 3) ds, acc_mag_buffer = map (\<lambda>d. d ! 7) ds,
          timestamp_buffer = map (\<lambda>d. d ! 0) ds, acc_threshold = None, raw_csv = ds,
          filtered_csv = []\<rparr>"
  using assms
proof (induction ds rule: rev_induct)
  case Nil
  then show ?case by (simp add: init_processor_def)
next
  case (snoc d ds)
  then have ih: "run lib init_processor ds =
     Inr \<lparr>ecg_I_buffer = map (\<lambda>d. d ! 1) ds, ecg_II_buffer = map (\<lambda>d. d ! 2) ds,
          ecg_III_buffer = map (\<lambda>d. d ! 3) ds, acc_mag_buffer = map (\<lambda>d. d ! 7) ds,
          timestamp_buffer = map (\<lambda>d. d ! 0) ds, acc_threshold = None, raw_csv = ds,
          filtered_csv = []\<rparr>" by simp
  from snoc.prems have d: "length d = 8" and l: "\<not> WINDOW_SIZE \<le> length ds + 1" by simp_all
  show ?case
    unfolding run_append ih using d l
    by (simp add: process_sample_def Let_def append_buffers_def save_raw_sample_def)
qed

lemma filling_reaches:
  assumes "length ds < WINDOW_SIZE" and "\<forall>d\<in>set ds. length d = 8"
  shows "\<exists>s. run lib init_processor ds = Inr s \<and> acc_threshold s = None \<and> filtered_csv s = []
     \<and> length (ecg_I_buffer s) = length ds \<and> acc_mag_buffer s = map (\<lambda>d. d ! 7) ds
     \<and> timestamp_buffer s = map (\<lambda>d. d ! 0) ds"
  using run_filling[OF assms, of lib] by simp

lemma process_sample_returns:
  assumes lib: "lib_returns lib" and syn: "buffers_synced s" and d: "length d = 8"
  shows "\<exists>s'. process_sample lib s d = Inr s'"
proof -
  let ?s2 = "append_buffers (save_raw_sample s d) (d ! 0) (d ! 1) (d ! 2) (d ! 3) (d ! 7)"
  have "buffers_synced ?s2" using syn by (simp add: synced_append synced_save)
  moreover have "timestamp_buffer ?s2 \<noteq> []" by (simp add: append_buffers_def)
  ultimately obtain s3 where "process_window lib ?s2 = Inr s3"
    using process_window_returns[OF lib, of ?s2] by blast
  with d show ?thesis by (simp add: process_sample_def Let_def)
qed

lemma run_returns:
  assumes lib: "lib_returns lib"
  shows "buffers_synced s \<Longrightarrow> \<forall>d\<in>set ds. length d = 8 \<Longrightarrow> \<exists>s'. run lib s ds = Inr s'"
proof (induction ds arbitrary: s)
  case Nil
  then show ?case by simp
next
  case (Cons d ds)
  from process_sample_returns[OF lib Cons.prems(1)] Cons.prems(2)
  obtain s1 where s1: "process_sample lib s d = Inr s1" by auto
  from process_sample_synced[OF Cons.prems(1) s1] have "buffers_synced s1" .
  from Cons.IH[OF this] Cons.prems(2) obtain s' where "run lib s1 ds = Inr s'" by auto
  with s1 show ?case by simp
qed

lemma stand_in_returns:
  "lib_returns \<lparr>wavedec = (\<lambda>x w l. replicate (Suc l) x), waverec = (\<lambda>cs w. [0]), threshold = (\<lambda>c v m. c)\<rparr>"
  by (simp add: lib_returns_def)

subsection \<open>The rows written for a window\<close>

lemma rows_zip:
  assumes "k \<le> length ts" "k \<le> length a" "k \<le> length b" "k \<le> length c"
  shows "map (\<lambda>i. (ts ! i, a ! i, b ! i, c ! i)) [0..<k]
       = zip (take k ts) (zip (take k a) (zip (take k b) (take k c)))"
  using assms by (intro nth_equalityI) simp_all

lemma process_sample_window:
  assumes inv: "buffers_synced s \<and> length (timestamp_buffer s) < WINDOW_SIZE"
    and ps: "process_sample lib s d = Inr s'"
    and full: "WINDOW_SIZE \<le> length (ecg_I_buffer s) + 1"
  shows "\<exists>thr f1 f2 f3.
      calibrate (acc_threshold s) (acc_mag_buffer s @ [d ! 7]) = Inr thr
    \<and> adaptive_wavelet_filter lib (ecg_I_buffer s @ [d ! 1]) (detect_motion_segments (acc_mag_buffer s @ [d ! 7]) thr) WAVELET_TYPE DECOMPOSITION_LEVEL = Inr f1
    \<and> adaptive_wavelet_filter lib (ecg_II_buffer s @ [d ! 2]) (detect_motion_segments (acc_mag_buffer s @ [d ! 7]) thr) WAVELET_TYPE DECOMPOSITION_LEVEL = Inr f2
    \<and> adaptive_wavelet_filter lib (ecg_III_buffer s @ [d ! 3]) (detect_motion_segments (acc_mag_buffer s @ [d ! 7]) thr) WAVELET_TYPE DECOMPOSITION_LEVEL = Inr f3
    \<and> length f1 = WINDOW_SIZE \<and> length f2 = WINDOW_SIZE \<and> length f3 = WINDOW_SIZE
    \<and> length (timestamp_buffer s @ [d ! 0]) = WINDOW_SIZE
    \<and> length (acc_mag_buffer s @ [d ! 7]) = WINDOW_SIZE
    \<and> filtered_csv s' = filtered_csv s @
          map (\<lambda>i. ((timestamp_buffer s @ [d ! 0]) ! i, f1 ! i, f2 ! i, f3 ! i)) [0..<WINDOW_SIZE - OVERLAP]
    \<and> acc_threshold s' = Some thr
    \<and> timestamp_buffer s' = py_last OVERLAP (timestamp_buffer s @ [d ! 0])
    \<and> ecg_I_buffer s' = py_last OVERLAP (ecg_I_buffer s @ [d ! 1])
    \<and> ecg_II_buffer s' = py_last OVERLAP (ecg_II_buffer s @ [d ! 2])
    \<and> ecg_III_buffer s' = py_last OVERLAP (ecg_III_buffer s @ [d ! 3])
    \<and> acc_mag_buffer s' = py_last OVERLAP (acc_mag_buffer s @ [d ! 7])"
proof -
  let ?s2 = "append_buffers (save_raw_sample s d) (d ! 0) (d ! 1) (d ! 2) (d ! 3) (d ! 7)"
  from full process_sample_cases[OF ps] obtain s3 where pw: "process_window lib ?s2 = Inr s3" and s': "s' = slide_buffers s3"
    by (auto simp: Let_def)
  have b: "timestamp_buffer ?s2 = timestamp_buffer s @ [d ! 0]" "ecg_I_buffer ?s2 = ecg_I_buffer s @ [d ! 1]"
    "ecg_II_buffer ?s2 = ecg_II_buffer s @ [d ! 2]" "ecg_III_buffer ?s2 = ecg_III_buffer s @ [d ! 3]"
    "acc_mag_buffer ?s2 = acc_mag_buffer s @ [d ! 7]" "acc_threshold ?s2 = acc_threshold s"
    "filtered_csv ?s2 = filtered_csv s"
    by (simp_all add: append_buffers_def save_raw_sample_def)
  from inv full have len: "length (timestamp_buffer s) + 1 = WINDOW_SIZE" "length (ecg_I_buffer s) + 1 = WINDOW_SIZE"
    "length (ecg_II_buffer s) + 1 = WINDOW_SIZE" "length (ecg_III_buffer s) + 1 = WINDOW_SIZE"
    "length (acc_mag_buffer s) + 1 = WINDOW_SIZE"
    by (simp_all add: buffers_synced_def)
  from process_window_rows[OF pw] obtain thr f1 f2 f3 where
    c: "calibrate (acc_threshold s) (acc_mag_buffer s @ [d ! 7]) = Inr thr"
    and f1: "adaptive_wavelet_filter lib (ecg_I_buffer s @ [d ! 1]) (detect_motion_segments (acc_mag_buffer s @ [d ! 7]) thr) WAVELET_TYPE DECOMPOSITION_LEVEL = Inr f1"
    and f2: "adaptive_wavelet_filter lib (ecg_II_buffer s @ [d ! 2]) (detect_motion_segments (acc_mag_buffer s @ [d ! 7]) thr) WAVELET_TYPE DECOMPOSITION_LEVEL = Inr f2"
    and f3: "adaptive_wavelet_filter lib (ecg_III_buffer s @ [d ! 3]) (detect_motion_segments (acc_mag_buffer s @ [d ! 7]) thr) WAVELET_TYPE DECOMPOSITION_LEVEL = Inr f3"
    and s3: "s3 = ?s2\<lparr>acc_threshold := Some thr,
          filtered_csv := filtered_csv ?s2 @ map (\<lambda>i. (timestamp_buffer ?s2 ! i, f1 ! i, f2 ! i, f3 ! i)) [0..<length (timestamp_buffer ?s2) - OVERLAP]\<rparr>"
    unfolding b by blast
  from filter_length[OF f1] filter_length[OF f2] filter_length[OF f3] len
  have fl: "length f1 = WINDOW_SIZE" "length f2 = WINDOW_SIZE" "length f3 = WINDOW_SIZE" by simp_all
  have csv: "filtered_csv s' = filtered_csv s @
          map (\<lambda>i. ((timestamp_buffer s @ [d ! 0]) ! i, f1 ! i, f2 ! i, f3 ! i)) [0..<WINDOW_SIZE - OVERLAP]"
    unfolding s' s3 b using len(1) by (simp add: slide_buffers_def)
  have rest: "acc_threshold s' = Some thr"
    "timestamp_buffer s' = py_last OVERLAP (timestamp_buffer s @ [d ! 0])"
    "ecg_I_buffer s' = py_last OVERLAP (ecg_I_buffer s @ [d ! 1])"
    "ecg_II_buffer s' = py_last OVERLAP (ecg_II_buffer s @ [d ! 2])"
    "ecg_III_buffer s' = py_last OVERLAP (ecg_III_buffer s @ [d ! 3])"
    "acc_mag_buffer s' = py_last OVERLAP (acc_mag_buffer s @ [d ! 7])"
    unfolding s' s3 by (simp_all add: slide_buffers_def append_buffers_def save_raw_sample_def)
  from c f1 f2 f3 fl csv rest len show ?thesis by simp
qed

lemma window_step:
  assumes inv: "buffers_synced s \<and> length (timestamp_buffer s) < WINDOW_SIZE"
    and ps: "process_sample lib s d = Inr s'"
    and full: "WINDOW_SIZE \<le> length (ecg_I_buffer s) + 1"
  shows "\<exists>thr f1 f2 f3.
      calibrate (acc_threshold s) (acc_mag_buffer s @ [d ! 7]) = Inr thr
    \<and> adaptive_wavelet_filter lib (ecg_I_buffer s @ [d ! 1]) (detect_motion_segments (acc_mag_buffer s @ [d ! 7]) thr) WAVELET_TYPE DECOMPOSITION_LEVEL = Inr f1
    \<and> adaptive_wavelet_filter lib (ecg_II_buffer s @ [d ! 2]) (detect_motion_segments (acc_mag_buffer s @ [d ! 7]) thr) WAVELET_TYPE DECOMPOSITION_LEVEL = Inr f2
    \<and> adaptive_wavelet_filter lib (ecg_III_buffer s @ [d ! 3]) (detect_motion_segments (acc_mag_buffer s @ [d ! 7]) thr) WAVELET_TYPE DECOMPOSITION_LEVEL = Inr f3
    \<and> length (timestamp_buffer s @ [d ! 0]) = WINDOW_SIZE
    \<and> length f1 = WINDOW_SIZE \<and> length f2 = WINDOW_SIZE \<and> length f3 = WINDOW_SIZE
    \<and> filtered_csv s' = filtered_csv s @
          zip (take (WINDOW_SIZE - OVERLAP) (timestamp_buffer s @ [d ! 0]))
            (zip (take (WINDOW_SIZE - OVERLAP) f1)
              (zip (take (WINDOW_SIZE - OVERLAP) f2) (take (WINDOW_SIZE - OVERLAP) f3)))
    \<and> timestamp_buffer s' = drop (WINDOW_SIZE - OVERLAP) (timestamp_buffer s @ [d ! 0])
    \<and> ecg_I_buffer s' = drop (WINDOW_SIZE - OVERLAP) (ecg_I_buffer s @ [d ! 1])
    \<and> ecg_II_buffer s' = drop (WINDOW_SIZE - OVERLAP) (ecg_II_buffer s @ [d ! 2])
    \<and> ecg_III_buffer s' = drop (WINDOW_SIZE - OVERLAP) (ecg_III_buffer s @ [d ! 3])"
proof -
  from process_sample_window[OF inv ps full] obtain thr f1 f2 f3 where
    c: "calibrate (acc_threshold s) (acc_mag_buffer s @ [d ! 7]) = Inr thr"
    and f: "adaptive_wavelet_filter lib (ecg_I_buffer s @ [d ! 1]) (detect_motion_segments (acc_mag_buffer s @ [d ! 7]) thr) WAVELET_TYPE DECOMPOSITION_LEVEL = Inr f1"
      "adaptive_wavelet_filter lib (ecg_II_buffer s @ [d ! 2]) (detect_motion_segments (acc_mag_buffer s @ [d ! 7]) thr) WAVELET_TYPE DECOMPOSITION_LEVEL = Inr f2"
      "adaptive_wavelet_filter lib (ecg_III_buffer s @ [d ! 3]) (detect_motion_segments (acc_mag_buffer s @ [d ! 7]) thr) WAVELET_TYPE DECOMPOSITION_LEVEL = Inr f3"
    and l: "length f1 = WINDOW_SIZE" "length f2 = WINDOW_SIZE" "length f3 = WINDOW_SIZE"
      "length (timestamp_buffer s @ [d ! 0]) = WINDOW_SIZE"
    and csv: "filtered_csv s' = filtered_csv s @
          map (\<lambda>i. ((timestamp_buffer s @ [d ! 0]) ! i, f1 ! i, f2 ! i, f3 ! i)) [0..<WINDOW_SIZE - OVERLAP]"
    and b: "timestamp_buffer s' = py_last OVERLAP (timestamp_buffer s @ [d ! 0])"
      "ecg_I_buffer s' = py_last OVERLAP (ecg_I_buffer s @ [d ! 1])"
      "ecg_II_buffer s' = py_last OVERLAP (ecg_II_buffer s @ [d ! 2])"
      "ecg_III_buffer s' = py_last OVERLAP (ecg_III_buffer s @ [d ! 3])"
    by blast
  from inv l(4) have l5: "length (ecg_I_buffer s @ [d ! 1]) = WINDOW_SIZE"
    "length (ecg_II_buffer s @ [d ! 2]) = WINDOW_SIZE" "length (ecg_III_buffer s @ [d ! 3]) = WINDOW_SIZE"
    by (simp_all add: buffers_synced_def)
  have z: "map (\<lambda>i. ((timestamp_buffer s @ [d ! 0]) ! i, f1 ! i, f2 ! i, f3 ! i)) [0..<WINDOW_SIZE - OVERLAP]
     = zip (take (WINDOW_SIZE - OVERLAP) (timestamp_buffer s @ [d ! 0]))
            (zip (take (WINDOW_SIZE - OVERLAP) f1)
              (zip (take (WINDOW_SIZE - OVERLAP) f2) (take (WINDOW_SIZE - OVERLAP) f3)))"
    by (rule rows_zip) (simp_all only: l diff_le_self)
  show ?thesis
    using c f l csv b unfolding z py_last_OVERLAP_window[OF l(4)] py_last_OVERLAP_window[OF l5(1)]
      py_last_OVERLAP_window[OF l5(2)] py_last_OVERLAP_window[OF l5(3)]
    by blast
qed

lemma first_window:
  assumes lib: "lib_returns lib" and len: "length ds = WINDOW_SIZE" and l8: "\<forall>d\<in>set ds. length d = 8"
  shows "\<exists>s. run lib init_processor ds = Inr s
           \<and> map fst (filtered_csv s) = take (WINDOW_SIZE - OVERLAP) (map (\<lambda>d. d ! 0) ds)
           \<and> length (filtered_csv s) = WINDOW_SIZE - OVERLAP"
proof -
  define pre where "pre = butlast ds"
  define d where "d = last ds"
  from len have ne: "ds \<noteq> []" by (auto simp: WINDOW_SIZE_def)
  then have ds: "ds = pre @ [d]" unfolding pre_def d_def by simp
  from len ds have lp: "length pre < WINDOW_SIZE" and lp1: "WINDOW_SIZE \<le> length pre + 1" by simp_all
  from l8 ds have p8: "\<forall>d\<in>set pre. length d = 8" and d8: "length d = 8" by simp_all
  let ?s0 = "\<lparr>ecg_I_buffer = map (\<lambda>d. d ! 1) pre, ecg_II_buffer = map (\<lambda>d. d ! 2) pre,
          ecg_III_buffer = map (\<lambda>d. d ! 3) pre, acc_mag_buffer = map (\<lambda>d. d ! 7) pre,
          timestamp_buffer = map (\<lambda>d. d ! 0) pre, acc_threshold = None, raw_csv = pre,
          filtered_csv = []\<rparr>"
  have r0: "run lib init_processor pre = Inr ?s0" by (rule run_filling[OF lp p8])
  have inv: "buffers_synced ?s0 \<and> length (timestamp_buffer ?s0) < WINDOW_SIZE"
    using reachable_inv[OF r0] .
  from process_sample_returns[OF lib _ d8, of ?s0] inv obtain s where ps: "process_sample lib ?s0 d = Inr s"
    by blast
  have full: "WINDOW_SIZE \<le> length (ecg_I_buffer ?s0) + 1" using lp1 by simp
  from window_step[OF inv ps full] obtain f1 f2 f3 where
    l: "length f1 = WINDOW_SIZE" "length f2 = WINDOW_SIZE" "length f3 = WINDOW_SIZE"
    and csv: "filtered_csv s = filtered_csv ?s0 @
          zip (take (WINDOW_SIZE - OVERLAP) (timestamp_buffer ?s0 @ [d ! 0]))
            (zip (take (WINDOW_SIZE - OVERLAP) f1)
              (zip (take (WINDOW_SIZE - OVERLAP) f2) (take (WINDOW_SIZE - OVERLAP) f3)))"
    by blast
  have ts: "timestamp_buffer ?s0 @ [d ! 0] = map (\<lambda>d. d ! 0) ds" unfolding ds by simp
  have lt: "length (map (\<lambda>d. d ! 0) ds) = WINDOW_SIZE" using len by simp
  have "map fst (filtered_csv s) = take (WINDOW_SIZE - OVERLAP) (map (\<lambda>d. d ! 0) ds)"
    unfolding csv ts using l lt by (intro nth_equalityI) simp_all
  moreover have "length (filtered_csv s) = WINDOW_SIZE - OVERLAP"
    unfolding csv ts using l lt by simp
  moreover have "run lib init_processor ds = Inr s" unfolding ds run_append r0 using ps by simp
  ultimately show ?thesis by blast
qed

text \<open>
  Claim C2. In every state the processing loop reaches from the initial state, a call of
  \<^verbatim>\<open>process_sample\<close> that completes a window (the buffer reaches \<open>WINDOW_SIZE\<close>) appends
  exactly \<open>WINDOW_SIZE - OVERLAP\<close> rows to the filtered file, and a call that does not
  complete a window appends none.
\<close>

theorem emitted_per_window:
  assumes "run lib init_processor ds = Inr s" and "process_sample lib s d = Inr s'"
  shows "length (filtered_csv s') =
           length (filtered_csv s) + (if WINDOW_SIZE \<le> length (ecg_I_buffer s) + 1 then WINDOW_SIZE - OVERLAP else 0)"
proof -
  from reachable_inv[OF assms(1)] have syn: "buffers_synced s" and lt: "length (timestamp_buffer s) < WINDOW_SIZE" by simp_all
  let ?s2 = "append_buffers (save_raw_sample s d) (d ! 0) (d ! 1) (d ! 2) (d ! 3) (d ! 7)"
  show ?thesis
  proof (cases "WINDOW_SIZE \<le> length (ecg_I_buffer s) + 1")
    case True
    with process_sample_cases[OF assms(2)] obtain s3 where pw: "process_window lib ?s2 = Inr s3" and s': "s' = slide_buffers s3"
      by (auto simp: Let_def)
    from True syn lt have len: "length (timestamp_buffer ?s2) = WINDOW_SIZE"
      by (simp add: append_buffers_def save_raw_sample_def buffers_synced_def)
    from process_window_rows[OF pw] len s' have "length (filtered_csv s') = length (filtered_csv ?s2) + (WINDOW_SIZE - OVERLAP)"
      by (auto simp: slide_buffers_def)
    with True show ?thesis by (simp add: append_buffers_def save_raw_sample_def)
  next
    case False
    with process_sample_cases[OF assms(2)] have "s' = ?s2" by (simp add: Let_def)
    with False show ?thesis by (simp add: append_buffers_def save_raw_sample_def)
  qed
qed

theorem emitted_per_window_witness:
  "\<exists>s s'. run \<lparr>wavedec = (\<lambda>x w l. replicate (Suc l) x), waverec = (\<lambda>cs w. [0]), threshold = (\<lambda>c v m. c)\<rparr>
              init_processor (replicate 499 [1, 2, 3, 4, 5, 6, 7, 8]) = Inr s
     \<and> process_sample \<lparr>wavedec = (\<lambda>x w l. replicate (Suc l) x), waverec = (\<lambda>cs w. [0]), threshold = (\<lambda>c v m. c)\<rparr>
              s [9, 2, 3, 4, 5, 6, 7, 8] = Inr s'
     \<and> length (filtered_csv s) = 0 \<and> length (filtered_csv s') = 250"
proof -
  let ?lib = "\<lparr>wavedec = (\<lambda>x w l. replicate (Suc l) x), waverec = (\<lambda>cs w. [0::real]), threshold = (\<lambda>c v m. c)\<rparr>"
  let ?ds = "replicate 499 [1, 2, 3, 4, 5, 6, 7, 8 :: real]"
  let ?d = "[9, 2, 3, 4, 5, 6, 7, 8 :: real]"
  from filling_reaches[of ?ds ?lib] obtain s where r: "run ?lib init_processor ?ds = Inr s"
    and s: "filtered_csv s = []" "length (ecg_I_buffer s) = 499"
    by (auto simp: WINDOW_SIZE_def)
  from process_sample_returns[OF stand_in_returns, of s ?d] reachable_inv[OF r]
  obtain s' where p: "process_sample ?lib s ?d = Inr s'" by auto
  from emitted_per_window[OF r p] s have "length (filtered_csv s') = 250"
    by (simp add: WINDOW_SIZE_def OVERLAP_def)
  with r p s show ?thesis by auto
qed

text \<open>
  Claim C1 as stated fails: the rows written for a window are not its last
  \<open>N - OVERLAP\<close> entries. For the 500 samples with timestamps \<open>0, 1, ..., 499\<close>, the rows
  written when the window completes carry the timestamps \<open>0, ..., 249\<close>, not
  \<open>250, ..., 499\<close>.
\<close>

theorem window_emits_last_entries_counterexample:
  "\<exists>s. run \<lparr>wavedec = (\<lambda>x w l. replicate (Suc l) x), waverec = (\<lambda>cs w. [0]), threshold = (\<lambda>c v m. c)\<rparr>
          init_processor (map (\<lambda>k. [real k, 0, 0, 0, 0, 0, 0, 0]) [0..<500]) = Inr s
       \<and> map fst (filtered_csv s) = map real [0..<250]
       \<and> map fst (filtered_csv s) \<noteq> map real [250..<500]"
proof -
  let ?ds = "map (\<lambda>k. [real k, 0, 0, 0, 0, 0, 0, 0]) [0..<500]"
  have ts: "map (\<lambda>d. d ! 0) ?ds = map real [0..<500]" by (simp add: comp_def)
  have "take (WINDOW_SIZE - OVERLAP) (map real [0..<500]) = map real [0..<250]"
    by (simp add: WINDOW_SIZE_def OVERLAP_def take_map)
  moreover have "map real [0..<250] \<noteq> map real [250..<500]"
  proof
    assume "map real [0..<250] = map real [250..<500]"
    then have "map real [0..<250] ! 0 = map real [250..<500] ! 0" by simp
    then show False by simp
  qed
  ultimately show ?thesis
    using first_window[OF stand_in_returns, of ?ds] unfolding ts
    by (auto simp: WINDOW_SIZE_def)
qed

text \<open>
  Claim C1, amended. For every completed window, the rows written are, in index order, the
  first \<open>N - OVERLAP\<close> entries of the three filtered channels, each paired with the
  timestamp of the same index, where \<open>N = WINDOW_SIZE\<close> is the length of the window; the
  buffers slide afterwards, and keep exactly the entries that were not written (the last
  \<open>OVERLAP\<close> ones).
\<close>

theorem window_emits_leading_entries:
  assumes "run lib init_processor ds = Inr s"
    and "process_sample lib s d = Inr s'"
    and "WINDOW_SIZE \<le> length (ecg_I_buffer s) + 1"
  shows "\<exists>thr f1 f2 f3.
      calibrate (acc_threshold s) (acc_mag_buffer s @ [d ! 7]) = Inr thr
    \<and> adaptive_wavelet_filter lib (ecg_I_buffer s @ [d ! 1]) (detect_motion_segments (acc_mag_buffer s @ [d ! 7]) thr) WAVELET_TYPE DECOMPOSITION_LEVEL = Inr f1
    \<and> adaptive_wavelet_filter lib (ecg_II_buffer s @ [d ! 2]) (detect_motion_segments (acc_mag_buffer s @ [d ! 7]) thr) WAVELET_TYPE DECOMPOSITION_LEVEL = Inr f2
    \<and> adaptive_wavelet_filter lib (ecg_III_buffer s @ [d ! 3]) (detect_motion_segments (acc_mag_buffer s @ [d ! 7]) thr) WAVELET_TYPE DECOMPOSITION_LEVEL = Inr f3
    \<and> length (timestamp_buffer s @ [d ! 0]) = WINDOW_SIZE
    \<and> length f1 = WINDOW_SIZE \<and> length f2 = WINDOW_SIZE \<and> length f3 = WINDOW_SIZE
    \<and> filtered_csv s' = filtered_csv s @
          zip (take (WINDOW_SIZE - OVERLAP) (timestamp_buffer s @ [d ! 0]))
            (zip (take (WINDOW_SIZE - OVERLAP) f1)
              (zip (take (WINDOW_SIZE - OVERLAP) f2) (take (WINDOW_SIZE - OVERLAP) f3)))
    \<and> timestamp_buffer s' = drop (WINDOW_SIZE - OVERLAP) (timestamp_buffer s @ [d ! 0])
    \<and> ecg_I_buffer s' = drop (WINDOW_SIZE - OVERLAP) (ecg_I_buffer s @ [d ! 1])
    \<and> ecg_II_buffer s' = drop (WINDOW_SIZE - OVERLAP) (ecg_II_buffer s @ [d ! 2])
    \<and> ecg_III_buffer s' = drop (WINDOW_SIZE - OVERLAP) (ecg_III_buffer s @ [d ! 3])"
  using window_step[OF reachable_inv[OF assms(1)] assms(2) assms(3)] .

theorem window_emits_leading_entries_witness:
  "\<exists>s s'. run \<lparr>wavedec = (\<lambda>x w l. replicate (Suc l) x), waverec = (\<lambda>cs w. [0]), threshold = (\<lambda>c v m. c)\<rparr>
              init_processor (replicate 499 [1, 2, 3, 4, 5, 6, 7, 8]) = Inr s
     \<and> process_sample \<lparr>wavedec = (\<lambda>x w l. replicate (Suc l) x), waverec = (\<lambda>cs w. [0]), threshold = (\<lambda>c v m. c)\<rparr>
              s [9, 2, 3, 4, 5, 6, 7, 8] = Inr s'
     \<and> WINDOW_SIZE \<le> length (ecg_I_buffer s) + 1
     \<and> map fst (filtered_csv s') = replicate 250 1
     \<and> timestamp_buffer s' = replicate 249 1 @ [9]"
proof -
  let ?lib = "\<lparr>wavedec = (\<lambda>x w l. replicate (Suc l) x), waverec = (\<lambda>cs w. [0::real]), threshold = (\<lambda>c v m. c)\<rparr>"
  let ?ds = "replicate 499 [1, 2, 3, 4, 5, 6, 7, 8 :: real]"
  let ?d = "[9, 2, 3, 4, 5, 6, 7, 8 :: real]"
  from filling_reaches[of ?ds ?lib] obtain s where r: "run ?lib init_processor ?ds = Inr s"
    and s: "filtered_csv s = []" "length (ecg_I_buffer s) = 499" "timestamp_buffer s = replicate 499 1"
    by (auto simp: WINDOW_SIZE_def)
  from process_sample_returns[OF stand_in_returns, of s ?d] reachable_inv[OF r]
  obtain s' where p: "process_sample ?lib s ?d = Inr s'" by auto
  have full: "WINDOW_SIZE \<le> length (ecg_I_buffer s) + 1" using s by (simp add: WINDOW_SIZE_def)
  from window_emits_leading_entries[OF r p full] obtain f1 f2 f3 where
    l: "length f1 = WINDOW_SIZE" "length f2 = WINDOW_SIZE" "length f3 = WINDOW_SIZE"
    and csv: "filtered_csv s' = filtered_csv s @
          zip (take (WINDOW_SIZE - OVERLAP) (timestamp_buffer s @ [?d ! 0]))
            (zip (take (WINDOW_SIZE - OVERLAP) f1)
              (zip (take (WINDOW_SIZE - OVERLAP) f2) (take (WINDOW_SIZE - OVERLAP) f3)))"
    and ts: "timestamp_buffer s' = drop (WINDOW_SIZE - OVERLAP) (timestamp_buffer s @ [?d ! 0])"
    by blast
  have "map fst (filtered_csv s') = replicate 250 1"
    unfolding csv s using l by (intro nth_equalityI) (simp_all add: WINDOW_SIZE_def OVERLAP_def nth_append)
  moreover have "timestamp_buffer s' = replicate 249 1 @ [9]"
    unfolding ts s by (simp add: WINDOW_SIZE_def OVERLAP_def)
  ultimately show ?thesis using r p full by blast
qed

subsection \<open>The motion threshold\<close>

lemma process_sample_threshold_kept:
  assumes "acc_threshold s = Some t" and "process_sample lib s d = Inr s'"
  shows "acc_threshold s' = Some t"
proof (cases "WINDOW_SIZE \<le> length (ecg_I_buffer s) + 1")
  case True
  let ?s2 = "append_buffers (save_raw_sample s d) (d ! 0) (d ! 1) (d ! 2) (d ! 3) (d ! 7)"
  from True process_sample_cases[OF assms(2)] obtain s3 where pw: "process_window lib ?s2 = Inr s3" and s': "s' = slide_buffers s3"
    by (auto simp: Let_def)
  have "acc_threshold ?s2 = Some t" using assms(1) by (simp add: append_buffers_def save_raw_sample_def)
  with process_window_threshold[OF pw] have "acc_threshold s3 = Some t" by (auto simp: calibrate_def)
  with s' show ?thesis by (simp add: slide_buffers_def)
next
  case False
  with process_sample_cases[OF assms(2)] assms(1) show ?thesis
    by (simp add: Let_def append_buffers_def save_raw_sample_def)
qed

lemma run_threshold_kept:
  "acc_threshold s = Some t \<Longrightarrow> run lib s ds = Inr s' \<Longrightarrow> acc_threshold s' = Some t"
proof (induction ds arbitrary: s)
  case Nil
  then show ?case by simp
next
  case (Cons d ds)
  from Cons.prems(2) obtain s1 where s1: "process_sample lib s d = Inr s1" and r: "run lib s1 ds = Inr s'"
    by (auto split: sum.splits)
  from process_sample_threshold_kept[OF Cons.prems(1) s1] Cons.IH[OF _ r] show ?case by simp
qed

text \<open>
  Claim C5. After the processing loop has handled a list of samples from the initial
  state: as long as fewer than \<open>WINDOW_SIZE\<close> samples have arrived the motion threshold is
  unset; from then on it is the 75th percentile of the acceleration magnitudes of the first
  \<open>WINDOW_SIZE\<close> samples, whatever the later samples are, and it is this stored value
  that every later window uses.
\<close>

theorem motion_threshold_calibrated_once:
  assumes "run lib init_processor ds = Inr s"
  shows "if length ds < WINDOW_SIZE then acc_threshold s = None
         else np_percentile (map (\<lambda>d. d ! 7) (take WINDOW_SIZE ds)) ACC_THRESHOLD_PERCENTILE
                = Inr (the (acc_threshold s))
              \<and> acc_threshold s \<noteq> None
              \<and> (\<forall>acc_mag. calibrate (acc_threshold s) acc_mag = Inr (the (acc_threshold s)))"
proof (cases "length ds < WINDOW_SIZE")
  case True
  from run_lengths[OF assms] run_filling[OF True, of lib] assms
  show ?thesis using True by auto
next
  case False
  define pre where "pre = take (WINDOW_SIZE - 1) ds"
  define d where "d = ds ! (WINDOW_SIZE - 1)"
  define post where "post = drop WINDOW_SIZE ds"
  from False have w: "take WINDOW_SIZE ds = pre @ [d]"
    unfolding pre_def d_def
    by (metis One_nat_def Suc_pred WINDOW_SIZE_def diff_less not_less take_Suc_conv_app_nth zero_less_numeral zero_less_one less_le_trans linorder_not_less)
  then have ds: "ds = (pre @ [d]) @ post" unfolding post_def by (metis append_take_drop_id)
  have lp: "length pre = WINDOW_SIZE - 1" using False unfolding pre_def by simp
  then have lp': "length pre < WINDOW_SIZE" by (simp add: WINDOW_SIZE_def)
  have l8: "\<forall>d\<in>set pre. length d = 8" using run_lengths[OF assms] ds by (metis Un_iff set_append)
  let ?s0 = "\<lparr>ecg_I_buffer = map (\<lambda>d. d ! 1) pre, ecg_II_buffer = map (\<lambda>d. d ! 2) pre,
          ecg_III_buffer = map (\<lambda>d. d ! 3) pre, acc_mag_buffer = map (\<lambda>d. d ! 7) pre,
          timestamp_buffer = map (\<lambda>d. d ! 0) pre, acc_threshold = None, raw_csv = pre,
          filtered_csv = []\<rparr>"
  have r0: "run lib init_processor pre = Inr ?s0" by (rule run_filling[OF lp' l8])
  from assms obtain s1 where s1: "process_sample lib ?s0 d = Inr s1" and r1: "run lib s1 post = Inr s"
    unfolding ds run_append r0 by (auto split: sum.splits)
  let ?s2 = "append_buffers (save_raw_sample ?s0 d) (d ! 0) (d ! 1) (d ! 2) (d ! 3) (d ! 7)"
  have "WINDOW_SIZE \<le> length (ecg_I_buffer ?s0) + 1" using lp by simp
  with process_sample_cases[OF s1] obtain s3 where pw: "process_window lib ?s2 = Inr s3" and s1': "s1 = slide_buffers s3"
    by (auto simp: Let_def)
  have acc: "acc_mag_buffer ?s2 = map (\<lambda>d. d ! 7) (take WINDOW_SIZE ds)"
    unfolding w by (simp add: append_buffers_def save_raw_sample_def)
  have thr: "acc_threshold ?s2 = None" by (simp add: append_buffers_def save_raw_sample_def)
  from process_window_threshold[OF pw] obtain t where t: "acc_threshold s3 = Some t"
    and c: "np_percentile (map (\<lambda>d. d ! 7) (take WINDOW_SIZE ds)) ACC_THRESHOLD_PERCENTILE = Inr t"
    unfolding acc thr by (auto simp: calibrate_def)
  from t s1' have "acc_threshold s1 = Some t" by (simp add: slide_buffers_def)
  from run_threshold_kept[OF this r1] have "acc_threshold s = Some t" .
  with c False show ?thesis by simp
qed

theorem motion_threshold_calibrated_once_witness:
  "\<exists>s. run \<lparr>wavedec = (\<lambda>x w l. replicate (Suc l) x), waverec = (\<lambda>cs w. [0]), threshold = (\<lambda>c v m. c)\<rparr>
          init_processor (replicate 500 [0, 0, 0, 0, 0, 0, 0, 1] @ replicate 500 [0, 0, 0, 0, 0, 0, 0, 9]) = Inr s
     \<and> acc_threshold s \<noteq> None
     \<and> np_percentile (replicate 500 1) ACC_THRESHOLD_PERCENTILE = Inr (the (acc_threshold s))"
proof -
  let ?lib = "\<lparr>wavedec = (\<lambda>x w l. replicate (Suc l) x), waverec = (\<lambda>cs w. [0::real]), threshold = (\<lambda>c v m. c)\<rparr>"
  let ?ds = "replicate 500 [0, 0, 0, 0, 0, 0, 0, 1 :: real] @ replicate 500 [0, 0, 0, 0, 0, 0, 0, 9]"
  from run_returns[OF stand_in_returns, of init_processor ?ds] init_inv
  obtain s where r: "run ?lib init_processor ?ds = Inr s" by auto
  from motion_threshold_calibrated_once[OF r]
  have "acc_threshold s \<noteq> None \<and> np_percentile (replicate 500 1) ACC_THRESHOLD_PERCENTILE = Inr (the (acc_threshold s))"
    by (simp add: WINDOW_SIZE_def)
  with r show ?thesis by blast
qed

lemma sorted_count_above:
  fixes s :: "real list"
  assumes "sorted s" and "k < length s" and "s ! k \<le> thr"
  shows "length (filter (\<lambda>a. a > thr) s) \<le> length s - Suc k"
proof -
  have "\<forall>x\<in>set (take (Suc k) s). \<not> x > thr"
  proof
    fix x assume "x \<in> set (take (Suc k) s)"
    then obtain i where i: "i < Suc k" "i < length s" and x: "x = s ! i"
      by (auto simp: in_set_conv_nth)
    from sorted_nth_mono[OF assms(1), of i k] i assms(2) have "s ! i \<le> s ! k" by simp
    with x assms(3) show "\<not> x > thr" by simp
  qed
  then have e: "filter (\<lambda>a. a > thr) (take (Suc k) s) = []" by (simp add: filter_empty_conv)
  have "filter (\<lambda>a. a > thr) s = filter (\<lambda>a. a > thr) (take (Suc k) s @ drop (Suc k) s)" by simp
  also have "\<dots> = filter (\<lambda>a. a > thr) (drop (Suc k) s)" unfolding filter_append e by simp
  finally have "length (filter (\<lambda>a. a > thr) s) \<le> length (drop (Suc k) s)"
    using length_filter_le by metis
  then show ?thesis by simp
qed

lemma count_sort:
  fixes xs :: "real list"
  shows "length (filter P (sort xs)) = length (filter P xs)"
  by (simp add: filter_sort)

lemma np_mean_detect:
  "np_mean (detect_motion_segments acc thr) = real (length (filter (\<lambda>a. a > thr) acc)) / real (length acc)"
proof -
  have "filter (\<lambda>b. b) (map (\<lambda>a. a > thr) acc) = map (\<lambda>a. a > thr) (filter (\<lambda>a. a > thr) acc)"
    by (simp add: filter_map comp_def)
  then show ?thesis by (simp add: np_mean_def detect_motion_segments_def)
qed

lemma percentile_first_window:
  assumes len: "length acc = WINDOW_SIZE"
    and p: "np_percentile acc ACC_THRESHOLD_PERCENTILE = Inr thr"
  shows "length (filter (\<lambda>a. a > thr) acc) \<le> 125"
proof -
  let ?s = "sort acc"
  have n: "length ?s = 500" using len by (simp add: WINDOW_SIZE_def)
  have pos: "(75::real) / 100 * real (500 - Suc 0) = 1497 / 4" by simp
  have fl: "\<lfloor>(1497::real) / 4\<rfloor> = 374" by (simp add: floor_eq_iff)
  from p have thr: "thr = ?s ! 374 + (?s ! 375 - ?s ! 374) * (1497 / 4 - 374)"
    unfolding np_percentile_def Let_def n ACC_THRESHOLD_PERCENTILE_def
    by (simp add: fl)
  have "sorted ?s" by simp
  from sorted_nth_mono[OF this, of 374 375] n have "?s ! 374 \<le> ?s ! 375" by simp
  then have "?s ! 374 \<le> thr" unfolding thr by simp
  from sorted_count_above[OF \<open>sorted ?s\<close> _ this] n
  have "length (filter (\<lambda>a. a > thr) ?s) \<le> 125" by simp
  then show ?thesis by (simp add: count_sort)
qed

lemma first_window_ratio:
  assumes len: "length acc = WINDOW_SIZE"
    and p: "np_percentile acc ACC_THRESHOLD_PERCENTILE = Inr thr"
  shows "np_mean (detect_motion_segments acc thr) \<le> 25 / 100"
proof -
  from percentile_first_window[OF assms] have "real (length (filter (\<lambda>a. a > thr) acc)) \<le> 125" by simp
  then show ?thesis unfolding np_mean_detect using len by (simp add: WINDOW_SIZE_def)
qed

text \<open>
  Claim C10. In a reachable state with no motion threshold yet, the window that the next
  sample completes (the first processed window) gets a threshold for which at most a
  quarter of its samples are flagged as motion; the motion ratio does not exceed \<open>0.3\<close>,
  and every band threshold of this window is computed with the low-motion multiplier.
\<close>

theorem first_window_low_motion:
  assumes "run lib init_processor ds = Inr s"
    and "acc_threshold s = None"
    and "WINDOW_SIZE \<le> length (ecg_I_buffer s) + 1"
  shows "\<exists>thr. calibrate (acc_threshold s) (acc_mag_buffer s @ [m]) = Inr thr
     \<and> np_mean (detect_motion_segments (acc_mag_buffer s @ [m]) thr) \<le> 25 / 100
     \<and> \<not> np_mean (detect_motion_segments (acc_mag_buffer s @ [m]) thr) > 3 / 10
     \<and> (\<forall>tb n i. band_threshold tb (detect_motion_segments (acc_mag_buffer s @ [m]) thr) n i
           = tb * THRESHOLD_MULTIPLIER_LOW_MOTION * (15 / 10) ^ (n - i))"
proof -
  from reachable_inv[OF assms(1)] assms(3)
  have len: "length (acc_mag_buffer s @ [m]) = WINDOW_SIZE" by (simp add: buffers_synced_def)
  from calibrate_returns[of "acc_mag_buffer s @ [m]" "acc_threshold s"]
  obtain thr where c: "calibrate (acc_threshold s) (acc_mag_buffer s @ [m]) = Inr thr" by auto
  with assms(2) have p: "np_percentile (acc_mag_buffer s @ [m]) ACC_THRESHOLD_PERCENTILE = Inr thr"
    by (simp add: calibrate_def)
  from first_window_ratio[OF len p]
  have r: "np_mean (detect_motion_segments (acc_mag_buffer s @ [m]) thr) \<le> 25 / 100" .
  then have n: "\<not> np_mean (detect_motion_segments (acc_mag_buffer s @ [m]) thr) > 3 / 10" by simp
  then have "\<forall>tb n i. band_threshold tb (detect_motion_segments (acc_mag_buffer s @ [m]) thr) n i
           = tb * THRESHOLD_MULTIPLIER_LOW_MOTION * (15 / 10) ^ (n - i)"
    by (simp add: band_threshold_def Let_def)
  with c r n show ?thesis by blast
qed

theorem first_window_low_motion_witness:
  "\<exists>s. run \<lparr>wavedec = (\<lambda>x w l. replicate (Suc l) x), waverec = (\<lambda>cs w. [0]), threshold = (\<lambda>c v m. c)\<rparr>
          init_processor (replicate 499 [1, 2, 3, 4, 5, 6, 7, 8]) = Inr s
     \<and> acc_threshold s = None
     \<and> WINDOW_SIZE \<le> length (ecg_I_buffer s) + 1
     \<and> (\<exists>thr. calibrate (acc_threshold s) (acc_mag_buffer s @ [100]) = Inr thr
          \<and> np_mean (detect_motion_segments (acc_mag_buffer s @ [100]) thr) \<le> 25 / 100
          \<and> band_threshold 2 (detect_motion_segments (acc_mag_buffer s @ [100]) thr) 6 1
               = 2 * THRESHOLD_MULTIPLIER_LOW_MOTION * (15 / 10) ^ 5)"
proof -
  let ?lib = "\<lparr>wavedec = (\<lambda>x w l. replicate (Suc l) x), waverec = (\<lambda>cs w. [0::real]), threshold = (\<lambda>c v m. c)\<rparr>"
  let ?ds = "replicate 499 [1, 2, 3, 4, 5, 6, 7, 8 :: real]"
  from filling_reaches[of ?ds ?lib] obtain s where r: "run ?lib init_processor ?ds = Inr s"
    and s: "acc_threshold s = None" "length (ecg_I_buffer s) = 499"
    by (auto simp: WINDOW_SIZE_def)
  have full: "WINDOW_SIZE \<le> length (ecg_I_buffer s) + 1" using s by (simp add: WINDOW_SIZE_def)
  from first_window_low_motion[OF r s(1) full, of 100] obtain thr where
    "calibrate (acc_threshold s) (acc_mag_buffer s @ [100]) = Inr thr"
    "np_mean (detect_motion_segments (acc_mag_buffer s @ [100]) thr) \<le> 25 / 100"
    "band_threshold 2 (detect_motion_segments (acc_mag_buffer s @ [100]) thr) 6 1
               = 2 * THRESHOLD_MULTIPLIER_LOW_MOTION * (15 / 10) ^ (6 - 1)"
    by blast
  with r s(1) full show ?thesis by auto
qed

subsection \<open>Ingestion\<close>

lemma those_map:
  "those (map f xs) = (if list_all (\<lambda>x. f x \<noteq> None) xs then Some (map (the \<circ> f) xs) else None)"
  by (induction xs) (auto split: option.splits)

text \<open>
  Claim C9 as stated fails in its last part: the message \<^verbatim>\<open>1,2,3\<close> parses into three
  floats, is not enqueued, and no line is printed for it; there is no warning.
\<close>

theorem wrong_count_dropped_silently_counterexample:
  "those (map py_float (split CHR '','' (strip ''1,2,3''))) = Some [Finite 1, Finite 2, Finite 3]
   \<and> data_queue (receive py_float ''1,2,3'' \<lparr>data_queue = [], printed = []\<rparr>) = []
   \<and> printed (receive py_float ''1,2,3'' \<lparr>data_queue = [], printed = []\<rparr>) = []"
  by code_simp

text \<open>
  Claim C9, amended. A message is appended to the queue if and only if, after stripping,
  it begins with neither \<^verbatim>\<open>ERROR\<close> nor \<^verbatim>\<open>SYSTEM\<close>, every one of its comma-separated
  fields converts to a float, and there are exactly 8 fields; the queue is unchanged
  otherwise. A message beginning with \<^verbatim>\<open>ERROR\<close> or \<^verbatim>\<open>SYSTEM\<close> is printed as a system
  line, and a message with a field that does not convert is printed as a warning.
\<close>

theorem receive_enqueues_iff_8_floats:
  "(let message = strip data;
        fields = split CHR '','' message;
        control = (startswith message ''ERROR'' \<or> startswith message ''SYSTEM'');
        parses = list_all (\<lambda>f. float f \<noteq> None) fields;
        r' = receive float data r
    in (if \<not> control \<and> parses \<and> length fields = 8
        then data_queue r' = data_queue r @ [map (the \<circ> float) fields] \<and> printed r' = printed r
        else data_queue r' = data_queue r)
     \<and> (control \<longrightarrow> printed r' = printed r @ [SYSTEM_line message])
     \<and> (\<not> control \<and> \<not> parses \<longrightarrow> printed r' = printed r @ [WARNING_line message]))"
  by (simp add: receive_def Let_def those_map)

theorem receive_enqueues_iff_8_floats_witness:
  "\<not> startswith (strip ''1000.01,0.12,0.15,0.10,0.01,0.02,0.98,0.981'') ''ERROR''
   \<and> \<not> startswith (strip ''1000.01,0.12,0.15,0.10,0.01,0.02,0.98,0.981'') ''SYSTEM''
   \<and> list_all (\<lambda>f. py_float f \<noteq> None) (split CHR '','' (strip ''1000.01,0.12,0.15,0.10,0.01,0.02,0.98,0.981''))
   \<and> length (split CHR '','' (strip ''1000.01,0.12,0.15,0.10,0.01,0.02,0.98,0.981'')) = 8
   \<and> data_queue (receive py_float ''1000.01,0.12,0.15,0.10,0.01,0.02,0.98,0.981'' \<lparr>data_queue = [], printed = []\<rparr>)
       = [map (the \<circ> py_float) (split CHR '','' (strip ''1000.01,0.12,0.15,0.10,0.01,0.02,0.98,0.981''))]
   \<and> startswith (strip ''ERROR,disconnect'') ''ERROR''
   \<and> data_queue (receive py_float ''ERROR,disconnect'' \<lparr>data_queue = [], printed = []\<rparr>) = []
   \<and> printed (receive py_float ''ERROR,disconnect'' \<lparr>data_queue = [], printed = []\<rparr>)
       = [SYSTEM_line (strip ''ERROR,disconnect'')]"
proof -
  let ?m = "''1000.01,0.12,0.15,0.10,0.01,0.02,0.98,0.981''"
  let ?r = "\<lparr>data_queue = [], printed = []\<rparr> :: pyfloat receiver"
  have a: "\<not> startswith (strip ?m) ''ERROR''" "\<not> startswith (strip ?m) ''SYSTEM''" by code_simp+
  have b: "list_all (\<lambda>f. py_float f \<noteq> None) (split CHR '','' (strip ?m))" by code_simp
  have c: "length (split CHR '','' (strip ?m)) = 8" by code_simp
  have d: "startswith (strip ''ERROR,disconnect'') ''ERROR''" by code_simp
  from receive_enqueues_iff_8_floats[of ?m py_float ?r] a b c
  have 1: "data_queue (receive py_float ?m ?r) = [map (the \<circ> py_float) (split CHR '','' (strip ?m))]"
    by (simp add: Let_def)
  from receive_enqueues_iff_8_floats[of "''ERROR,disconnect''" py_float ?r] d
  have 2: "data_queue (receive py_float ''ERROR,disconnect'' ?r) = []
     \<and> printed (receive py_float ''ERROR,disconnect'' ?r) = [SYSTEM_line (strip ''ERROR,disconnect'')]"
    by (simp add: Let_def)
  from a b c d 1 2 show ?thesis by blast
qed

end
